theory Spec2Isabelle
  imports Main "HOL-Library.AList"
begin

section \<open>Schema derivation of reindex-api: \<^verbatim>\<open>src/graphQL/createSchema.js\<close>\<close>

text \<open>
  The theory embeds \<^verbatim>\<open>createSchema.js\<close>: the field compiler \<^verbatim>\<open>createField\<close>, the type
  builder \<^verbatim>\<open>createType\<close>, the derivations \<^verbatim>\<open>createInputObject\<close> and
  \<^verbatim>\<open>createMutation\<close>, and the orchestration \<^verbatim>\<open>createSchema\<close>.

  Conventions of the embedding.
  \<^item> A JavaScript exception is the left injection of a sum: every function that can throw
    returns \<open>error + 'a\<close>. The only exception the file itself can raise is the
    \<^verbatim>\<open>TypeError\<close> of reading a property of \<^verbatim>\<open>undefined\<close> (or calling it).
  \<^item> An Immutable.js \<^verbatim>\<open>Map\<close> and a plain JavaScript object are association lists with
    distinct keys; \<^verbatim>\<open>set\<close> and object assignment are \<open>AList.update\<close> (replace in
    place, else append), \<^verbatim>\<open>get\<close> is \<open>map_of\<close>. The iteration order of a large
    Immutable.js map is not modelled: the properties below speak of keys and values only.
  \<^item> The type constructors of the graphql library are the constructors of the datatype
    \<open>gql_type\<close>; the library's own argument validation is outside the model (the one
    check that matters below, the rejection of an empty type name, is a hypothesis where
    construction is stated to succeed).
  \<^item> The field map of an object type made by \<^verbatim>\<open>createType\<close> is a thunk that closes over
    the metadata and over the variable \<^verbatim>\<open>typeSets\<close> of \<^verbatim>\<open>createSchema\<close>. A closure
    is data here: \<open>FieldsThunk\<close> carries the field descriptors, and \<open>getFields\<close>
    receives the value that \<^verbatim>\<open>typeSets\<close> holds at the moment of the call.
\<close>

subsection \<open>Data model\<close>

datatype error = TypeError

text \<open>An interface type of the graphql library, identified by its name.\<close>

datatype gql_interface = GraphQLInterfaceType string

text \<open>
  \<^verbatim>\<open>FieldMetadata\<close>: an Immutable.js map. \<^verbatim>\<open>name\<close> and \<^verbatim>\<open>type\<close> are always there;
  the other keys may be absent (\<open>None\<close>, read as \<^verbatim>\<open>undefined\<close>).
\<close>

record FieldMetadata =
  fm_name :: string
  fm_type :: string
  fm_isRequired :: "bool option"
  fm_isDeprecated :: "bool option"
  fm_target :: "string option"
  fm_reverseName :: "string option"

record TypeMetadata =
  tm_name :: string
  tm_fields :: "FieldMetadata list"

text \<open>
  The types of the graphql library. \<open>Undefined\<close> is JavaScript's \<^verbatim>\<open>undefined\<close> in a
  position where a type is expected (the defaults of the \<^verbatim>\<open>TypeSet\<close> record). The
  fields of an object type are either the thunk of \<^verbatim>\<open>createType\<close> or a literal object
  of field configurations, of which only the \<^verbatim>\<open>type\<close> is kept.
\<close>

datatype gql_type =
    Undefined
  | GraphQLScalarType string
  | GraphQLObjectType string "gql_interface list" object_fields
  | GraphQLInputObjectType string "(string \<times> gql_type) list"
  | GraphQLList gql_type
  | GraphQLNonNull gql_type
and object_fields =
    FieldsThunk "FieldMetadata list"
  | FieldsObject "(string \<times> gql_type) list"

abbreviation GraphQLString :: gql_type where "GraphQLString \<equiv> GraphQLScalarType ''String''"
abbreviation GraphQLID :: gql_type where "GraphQLID \<equiv> GraphQLScalarType ''ID''"
abbreviation GraphQLInt :: gql_type where "GraphQLInt \<equiv> GraphQLScalarType ''Int''"
abbreviation GraphQLFloat :: gql_type where "GraphQLFloat \<equiv> GraphQLScalarType ''Float''"
abbreviation GraphQLBoolean :: gql_type where "GraphQLBoolean \<equiv> GraphQLScalarType ''Boolean''"

text \<open>
  Modelled from the spec: \<^verbatim>\<open>DateTime\<close> of \<^verbatim>\<open>./builtIns\<close> is not among the sources; the
  spec calls it a pre-built date-time scalar.
\<close>

abbreviation DateTime :: gql_type where "DateTime \<equiv> GraphQLScalarType ''DateTime''"

text \<open>\<^verbatim>\<open>class TypeSet extends Record({type, connection, inputObject, mutation})\<close>, lines 85-90.\<close>

record TypeSet =
  type :: gql_type
  connection :: gql_type
  inputObject :: gql_type
  mutation :: gql_type

text \<open>\<^verbatim>\<open>new TypeSet({type})\<close>: the other three keys keep their default.\<close>

definition newTypeSet :: "gql_type \<Rightarrow> TypeSet" where
  "newTypeSet ty =
     \<lparr>type = ty, connection = Undefined, inputObject = Undefined, mutation = Undefined\<rparr>"

text \<open>
  Modelled from the spec: \<^verbatim>\<open>createInterfaces\<close> of \<^verbatim>\<open>./builtIns\<close> is not among the
  sources; the spec names a generic Connection interface and a generic Mutation interface.
\<close>

record Interfaces =
  Connection :: gql_interface
  Mutation :: gql_interface

definition createInterfaces :: Interfaces where
  "createInterfaces =
     \<lparr>Connection = GraphQLInterfaceType ''Connection'',
      Mutation = GraphQLInterfaceType ''Mutation''\<rparr>"

text \<open>
  The resolver of a compiled field, as data: \<open>NoResolve\<close> is \<^verbatim>\<open>undefined\<close> (the
  library's default property read), \<open>ResolveConnection target reverseName\<close> is the
  closure of lines 125-130, \<open>ResolveById fieldType fieldName\<close> the one of lines 135-138.
\<close>

datatype resolver =
    NoResolve
  | ResolveConnection string "string option"
  | ResolveById string string

text \<open>
  Modelled from the spec: \<^verbatim>\<open>createConnectionArguments\<close> of \<^verbatim>\<open>./connections\<close> is not
  among the sources. The spec fixes four arguments: cursor-after, cursor-before, count-first
  and count-last.
\<close>

datatype argument = ForwardCursor | BackwardCursor | ForwardCount | BackwardCount

definition createConnectionArguments :: "(string \<times> argument) list" where
  "createConnectionArguments =
     [(''first'', ForwardCount), (''after'', ForwardCursor),
      (''last'', BackwardCount), (''before'', BackwardCursor)]"

text \<open>The object literal that \<^verbatim>\<open>createField\<close> returns, lines 145-151.\<close>

record Field =
  f_name :: string
  f_type :: gql_type
  f_args :: "(string \<times> argument) list"
  f_resolve :: resolver
  f_isDeprecated :: bool

subsection \<open>The field compiler\<close>

text \<open>\<^verbatim>\<open>PRIMITIVE_TYPE_MAP\<close>, lines 106-113.\<close>

definition PRIMITIVE_TYPE_MAP :: "(string \<times> gql_type) list" where
  "PRIMITIVE_TYPE_MAP =
     [(''id'', GraphQLID), (''string'', GraphQLString), (''integer'', GraphQLInt),
      (''number'', GraphQLFloat), (''boolean'', GraphQLBoolean), (''datetime'', DateTime)]"

text \<open>
  Lines 121-139 of \<^verbatim>\<open>createField\<close>: the three branches, giving the type, the argument
  map and the resolver. \<^verbatim>\<open>getTypeSet(x).connection\<close> throws when the name is not in
  the registry.
\<close>

definition createField_branch ::
  "(string \<Rightarrow> TypeSet option) \<Rightarrow> FieldMetadata \<Rightarrow>
     error + (gql_type \<times> (string \<times> argument) list \<times> resolver)" where
  "createField_branch getTypeSet field =
     (let fieldName = fm_name field; fieldType = fm_type field in
      case (if fieldType = ''connection'' then fm_target field else None) of
        Some target \<Rightarrow>
          (case getTypeSet target of
             None \<Rightarrow> Inl TypeError
           | Some ts \<Rightarrow>
               Inr (connection ts, createConnectionArguments,
                    ResolveConnection target (fm_reverseName field)))
      | None \<Rightarrow>
          (case map_of PRIMITIVE_TYPE_MAP fieldType of
             Some scalar \<Rightarrow> Inr (scalar, [], NoResolve)
           | None \<Rightarrow>
               (case getTypeSet fieldType of
                  None \<Rightarrow> Inl TypeError
                | Some ts \<Rightarrow> Inr (type ts, [], ResolveById fieldType fieldName))))"

text \<open>\<^verbatim>\<open>createField\<close>, lines 115-152.\<close>

definition createField :: "(string \<Rightarrow> TypeSet option) \<Rightarrow> FieldMetadata \<Rightarrow> error + Field" where
  "createField getTypeSet field =
     (case createField_branch getTypeSet field of
        Inl e \<Rightarrow> Inl e
      | Inr (ty, argDef, resolve) \<Rightarrow>
          Inr \<lparr>f_name = fm_name field,
               f_type = (if fm_isRequired field = Some True then GraphQLNonNull ty else ty),
               f_args = argDef,
               f_resolve = resolve,
               f_isDeprecated = (fm_isDeprecated field = Some True)\<rparr>)"

subsection \<open>The type builder and the library's \<^verbatim>\<open>getFields\<close>\<close>

text \<open>
  \<^verbatim>\<open>createType\<close>, lines 92-104: the field map stays a thunk. The constructor of the
  library rejects an empty name (\<^verbatim>\<open>Type must be named.\<close>); \<open>createType\<close> stands for the
  object type of a named descriptor, and every property below that states that
  construction succeeds assumes that the type names are not empty.
\<close>

definition createType :: "TypeMetadata \<Rightarrow> gql_type" where
  "createType tm = GraphQLObjectType (tm_name tm) [] (FieldsThunk (tm_fields tm))"

text \<open>
  The body of the thunk, lines 95-102: the fields are compiled in order and stored under
  their names; a later field of the same name replaces the earlier one.
\<close>

fun fieldsThunk ::
  "(string \<Rightarrow> TypeSet option) \<Rightarrow> (string \<times> Field) list \<Rightarrow> FieldMetadata list \<Rightarrow>
     error + (string \<times> Field) list" where
  "fieldsThunk getTypeSet obj [] = Inr obj"
| "fieldsThunk getTypeSet obj (field # rest) =
     (case createField getTypeSet field of
        Inl e \<Rightarrow> Inl e
      | Inr fd \<Rightarrow> fieldsThunk getTypeSet (AList.update (fm_name field) fd obj) rest)"

text \<open>A field configuration \<^verbatim>\<open>{type: t}\<close> of a literal object, as the library exposes it.\<close>

definition literalField :: "string \<times> gql_type \<Rightarrow> string \<times> Field" where
  "literalField kv =
     (fst kv, \<lparr>f_name = fst kv, f_type = snd kv, f_args = [], f_resolve = NoResolve,
               f_isDeprecated = False\<rparr>)"

text \<open>
  \<^verbatim>\<open>type.getFields()\<close>, given the current registry. Only object and input object types
  have the method; calling it on anything else throws.
\<close>

fun getFields :: "(string \<times> TypeSet) list \<Rightarrow> gql_type \<Rightarrow> error + (string \<times> Field) list" where
  "getFields typeSets (GraphQLObjectType n ifaces (FieldsThunk descriptors)) =
     fieldsThunk (map_of typeSets) [] descriptors"
| "getFields typeSets (GraphQLObjectType n ifaces (FieldsObject obj)) =
     Inr (map literalField obj)"
| "getFields typeSets (GraphQLInputObjectType n obj) = Inr (map literalField obj)"
| "getFields typeSets _ = Inl TypeError"

text \<open>
  \<^verbatim>\<open>type.name\<close>: throws on \<^verbatim>\<open>undefined\<close>; a list or non-null wrapper has no such
  property, and \<^verbatim>\<open>undefined\<close> concatenated to a string reads \<^verbatim>\<open>"undefined"\<close>.
\<close>

fun nameOf :: "gql_type \<Rightarrow> error + string" where
  "nameOf Undefined = Inl TypeError"
| "nameOf (GraphQLScalarType n) = Inr n"
| "nameOf (GraphQLObjectType n ifaces fs) = Inr n"
| "nameOf (GraphQLInputObjectType n fs) = Inr n"
| "nameOf (GraphQLList t) = Inr ''undefined''"
| "nameOf (GraphQLNonNull t) = Inr ''undefined''"

subsection \<open>Connection, input object and mutation types\<close>

text \<open>
  Modelled from the spec: \<^verbatim>\<open>createConnection\<close> of \<^verbatim>\<open>./connections\<close> is not among the
  sources. The spec describes a pagination wrapper around \<^verbatim>\<open>typeSet.type\<close> that conforms
  to the generic Connection interface and has the edges and pageInfo shape.
\<close>

definition createConnection :: "TypeSet \<Rightarrow> Interfaces \<Rightarrow> error + gql_type" where
  "createConnection typeSet interfaces =
     (case nameOf (type typeSet) of
        Inl e \<Rightarrow> Inl e
      | Inr n \<Rightarrow>
          Inr (GraphQLObjectType (''_'' @ n @ ''Connection'') [Connection interfaces]
                 (FieldsObject
                    [(''edges'',
                      GraphQLList
                        (GraphQLObjectType (''_'' @ n @ ''Edge'') []
                           (FieldsObject
                              [(''cursor'', GraphQLString), (''node'', type typeSet)]))),
                     (''pageInfo'',
                      GraphQLObjectType ''PageInfo'' []
                        (FieldsObject
                           [(''hasNextPage'', GraphQLBoolean),
                            (''hasPreviousPage'', GraphQLBoolean),
                            (''startCursor'', GraphQLString),
                            (''endCursor'', GraphQLString)]))])))"

text \<open>
  The filter of \<^verbatim>\<open>createInputObject\<close>, lines 158-164. \<^verbatim>\<open>field.type.getInterfaces\<close> is
  read only when the name is not \<^verbatim>\<open>id\<close>; it throws on \<^verbatim>\<open>undefined\<close>, and only an
  object type has the method.
\<close>

fun keepInputField :: "gql_interface \<Rightarrow> string \<times> Field \<Rightarrow> error + bool" where
  "keepInputField Conn (name, field) =
     (if name = ''id'' then Inr False
      else case f_type field of
             Undefined \<Rightarrow> Inl TypeError
           | GraphQLObjectType n ifaces fs \<Rightarrow> Inr (Conn \<notin> set ifaces)
           | _ \<Rightarrow> Inr True)"

fun filterFields ::
  "gql_interface \<Rightarrow> (string \<times> Field) list \<Rightarrow> error + (string \<times> Field) list" where
  "filterFields Conn [] = Inr []"
| "filterFields Conn (kv # rest) =
     (case keepInputField Conn kv of
        Inl e \<Rightarrow> Inl e
      | Inr keep \<Rightarrow>
          (case filterFields Conn rest of
             Inl e \<Rightarrow> Inl e
           | Inr rest' \<Rightarrow> Inr (if keep then kv # rest' else rest')))"

text \<open>\<^verbatim>\<open>x instanceof GraphQLInputObjectType || x instanceof GraphQLScalarType\<close>, lines 175-176.\<close>

fun isInputOrScalar :: "gql_type \<Rightarrow> bool" where
  "isInputOrScalar (GraphQLInputObjectType n fs) = True"
| "isInputOrScalar (GraphQLScalarType n) = True"
| "isInputOrScalar _ = False"

text \<open>
  The map callback of \<^verbatim>\<open>createInputObject\<close>, lines 165-191, on \<^verbatim>\<open>field.type\<close>.
  \<open>parentType\<close> is the type itself when it is a list or non-null wrapper, and
  \<^verbatim>\<open>new parentType.constructor(GraphQLString)\<close> builds a wrapper of the same class.
\<close>

definition inputFieldType :: "gql_type \<Rightarrow> gql_type" where
  "inputFieldType fieldType0 =
     (let parentType =
            (case fieldType0 of
               GraphQLList t \<Rightarrow> Some fieldType0
             | GraphQLNonNull t \<Rightarrow> Some fieldType0
             | _ \<Rightarrow> None);
          fieldType =
            (case fieldType0 of
               GraphQLList t \<Rightarrow> t
             | GraphQLNonNull t \<Rightarrow> t
             | _ \<Rightarrow> fieldType0)
      in if isInputOrScalar fieldType then fieldType0
         else (case parentType of
                 Some (GraphQLList t) \<Rightarrow> GraphQLList GraphQLString
               | Some (GraphQLNonNull t) \<Rightarrow> GraphQLNonNull GraphQLString
               | _ \<Rightarrow> GraphQLString))"

definition inputField :: "string \<times> Field \<Rightarrow> string \<times> gql_type" where
  "inputField kv = (fst kv, inputFieldType (f_type (snd kv)))"

text \<open>
  \<^verbatim>\<open>createInputObject({type}, {Connection})\<close>, lines 154-194. The second argument is
  \<open>None\<close> when the caller leaves it out: destructuring \<^verbatim>\<open>undefined\<close> throws before the
  body runs. The code passes the fields through an Immutable.js \<^verbatim>\<open>Map\<close> (line 157), which
  lists more than eight entries in hash order: the list of the input object stands for its
  keys and their values, its order carries no meaning, and the properties of input objects
  below are stated on membership, lookup and sets of keys.
\<close>

definition createInputObject ::
  "(string \<times> TypeSet) list \<Rightarrow> TypeSet \<Rightarrow> Interfaces option \<Rightarrow> error + gql_type" where
  "createInputObject typeSets typeSet interfaces =
     (case interfaces of
        None \<Rightarrow> Inl TypeError
      | Some ifs \<Rightarrow>
          (case nameOf (type typeSet) of
             Inl e \<Rightarrow> Inl e
           | Inr n \<Rightarrow>
               (case getFields typeSets (type typeSet) of
                  Inl e \<Rightarrow> Inl e
                | Inr fieldMap \<Rightarrow>
                    (case filterFields (Connection ifs) fieldMap of
                       Inl e \<Rightarrow> Inl e
                     | Inr kept \<Rightarrow>
                         Inr (GraphQLInputObjectType (''_'' @ n @ ''InputObject'')
                                (map inputField kept))))))"

text \<open>\<^verbatim>\<open>createMutation({type}, {Mutation})\<close>, lines 196-209.\<close>

definition createMutation :: "TypeSet \<Rightarrow> Interfaces \<Rightarrow> error + gql_type" where
  "createMutation typeSet interfaces =
     (case nameOf (type typeSet) of
        Inl e \<Rightarrow> Inl e
      | Inr n \<Rightarrow>
          Inr (GraphQLObjectType (''_'' @ n @ ''Mutation'') [Mutation interfaces]
                 (FieldsObject
                    (AList.update n (type typeSet) [(''clientMutationId'', GraphQLID)]))))"

subsection \<open>The orchestration\<close>

text \<open>The first argument of \<^verbatim>\<open>createSchema\<close>, lines 27-33. A root field is its name and type.\<close>

record SchemaConfig =
  commonTypes :: "(string \<times> gql_type) list"
  commonQueryFields :: "(string \<times> gql_type) list"
  commonMutationFields :: "(string \<times> gql_type) list"
  typeQueryFieldCreators :: "(TypeSet \<Rightarrow> string \<times> gql_type) list"
  typeMutationFieldCreators :: "(TypeSet \<Rightarrow> string \<times> gql_type) list"

record GraphQLSchema =
  schema_query :: gql_type
  schema_mutation :: gql_type

text \<open>\<^verbatim>\<open>Map.map\<close> with a callback that may throw: the first exception ends the traversal.\<close>

fun mapValues :: "('a \<Rightarrow> error + 'b) \<Rightarrow> (string \<times> 'a) list \<Rightarrow> error + (string \<times> 'b) list" where
  "mapValues f [] = Inr []"
| "mapValues f ((k, v) # rest) =
     (case f v of
        Inl e \<Rightarrow> Inl e
      | Inr v' \<Rightarrow>
          (case mapValues f rest of
             Inl e \<Rightarrow> Inl e
           | Inr rest' \<Rightarrow> Inr ((k, v') # rest')))"

text \<open>
  The callback of lines 35-42, for one common type. \<^verbatim>\<open>createInputObject(typeSet)\<close> is
  called with one argument. The variable \<^verbatim>\<open>typeSets\<close> is not yet initialised at this
  point, so the registry handed to the call is empty.
\<close>

definition seedTypeSet :: "Interfaces \<Rightarrow> gql_type \<Rightarrow> error + TypeSet" where
  "seedTypeSet interfaces ty =
     (let typeSet = newTypeSet ty in
      case createConnection typeSet interfaces of
        Inl e \<Rightarrow> Inl e
      | Inr c \<Rightarrow>
          (case createInputObject [] typeSet None of
             Inl e \<Rightarrow> Inl e
           | Inr io \<Rightarrow>
               (case createMutation typeSet interfaces of
                  Inl e \<Rightarrow> Inl e
                | Inr m \<Rightarrow> Inr (typeSet\<lparr>connection := c, inputObject := io, mutation := m\<rparr>))))"

definition seedTypeSets ::
  "Interfaces \<Rightarrow> (string \<times> gql_type) list \<Rightarrow> error + (string \<times> TypeSet) list" where
  "seedTypeSets interfaces common = mapValues (seedTypeSet interfaces) common"

text \<open>Lines 44-52: one registry entry per metadata descriptor, in order.\<close>

fun addCustomTypes ::
  "Interfaces \<Rightarrow> (string \<times> TypeSet) list \<Rightarrow> TypeMetadata list \<Rightarrow>
     error + (string \<times> TypeSet) list" where
  "addCustomTypes interfaces typeSets [] = Inr typeSets"
| "addCustomTypes interfaces typeSets (typeMetadata # rest) =
     (let typeName = tm_name typeMetadata;
          typeSet = newTypeSet (createType typeMetadata)
      in case createConnection typeSet interfaces of
           Inl e \<Rightarrow> Inl e
         | Inr c \<Rightarrow>
             addCustomTypes interfaces
               (AList.update typeName (typeSet\<lparr>connection := c\<rparr>) typeSets) rest)"

text \<open>
  Lines 54-59. While the map runs, \<^verbatim>\<open>typeSets\<close> still holds the registry of pass 1, and
  that is what the thunks read.
\<close>

definition addInputAndMutation ::
  "Interfaces \<Rightarrow> (string \<times> TypeSet) list \<Rightarrow> TypeSet \<Rightarrow> error + TypeSet" where
  "addInputAndMutation interfaces typeSets typeSet =
     (case createInputObject typeSets typeSet (Some interfaces) of
        Inl e \<Rightarrow> Inl e
      | Inr io \<Rightarrow>
          (case createMutation typeSet interfaces of
             Inl e \<Rightarrow> Inl e
           | Inr m \<Rightarrow> Inr (typeSet\<lparr>inputObject := io, mutation := m\<rparr>)))"

definition addInputsAndMutations ::
  "Interfaces \<Rightarrow> (string \<times> TypeSet) list \<Rightarrow> error + (string \<times> TypeSet) list" where
  "addInputsAndMutations interfaces typeSets =
     mapValues (addInputAndMutation interfaces typeSets) typeSets"

text \<open>Lines 34-59 together: the registry that the resolvers and thunks close over.\<close>

definition buildTypeSets ::
  "SchemaConfig \<Rightarrow> TypeMetadata list \<Rightarrow> error + (string \<times> TypeSet) list" where
  "buildTypeSets config dbMetadata =
     (let interfaces = createInterfaces in
      case seedTypeSets interfaces (commonTypes config) of
        Inl e \<Rightarrow> Inl e
      | Inr seeded \<Rightarrow>
          (case addCustomTypes interfaces seeded dbMetadata of
             Inl e \<Rightarrow> Inl e
           | Inr pass1 \<Rightarrow> addInputsAndMutations interfaces pass1))"

text \<open>
  Modelled from the spec: \<^verbatim>\<open>createRootFieldsForTypes\<close> is not among the sources. The
  spec describes it as the aggregation of the fields that the per-type creators generate,
  for every TypeSet of the registry.
\<close>

definition createRootFieldsForTypes ::
  "(TypeSet \<Rightarrow> string \<times> gql_type) list \<Rightarrow> (string \<times> TypeSet) list \<Rightarrow>
     (string \<times> gql_type) list" where
  "createRootFieldsForTypes creators typeSets =
     AList.merge []
       (concat (map (\<lambda>kv. map (\<lambda>creator. creator (snd kv)) creators) typeSets))"

text \<open>\<^verbatim>\<open>createSchema\<close>, lines 27-83.\<close>

definition createSchema :: "SchemaConfig \<Rightarrow> TypeMetadata list \<Rightarrow> error + GraphQLSchema" where
  "createSchema config dbMetadata =
     (case buildTypeSets config dbMetadata of
        Inl e \<Rightarrow> Inl e
      | Inr typeSets \<Rightarrow>
          (let queryFields =
                 AList.merge (commonQueryFields config)
                   (createRootFieldsForTypes (typeQueryFieldCreators config) typeSets);
               mutationFields =
                 AList.merge (commonMutationFields config)
                   (createRootFieldsForTypes (typeMutationFieldCreators config) typeSets)
           in Inr \<lparr>schema_query = GraphQLObjectType ''_Query'' [] (FieldsObject queryFields),
                   schema_mutation =
                     GraphQLObjectType ''_Mutation'' [] (FieldsObject mutationFields)\<rparr>))"

subsection \<open>Notions used to state the properties\<close>

text \<open>
  The registry key that \<^verbatim>\<open>createField\<close> looks up for a field, following the order of its
  branches: the target of a connection field that has one, nothing for a primitive kind, the
  type string itself otherwise.
\<close>

definition referencedName :: "FieldMetadata \<Rightarrow> string option" where
  "referencedName field =
     (if fm_type field = ''connection'' \<and> fm_target field \<noteq> None then fm_target field
      else if fm_type field \<in> fst ` set PRIMITIVE_TYPE_MAP then None
      else Some (fm_type field))"

text \<open>The TypeSet that lines 46-51 store for a metadata descriptor.\<close>

definition pass1Entry :: "Interfaces \<Rightarrow> TypeMetadata \<Rightarrow> TypeSet \<Rightarrow> bool" where
  "pass1Entry ifs tm ts \<longleftrightarrow>
     type ts = createType tm \<and>
     createConnection (newTypeSet (createType tm)) ifs = Inr (connection ts) \<and>
     inputObject ts = Undefined \<and> mutation ts = Undefined"

text \<open>A descriptor with the \<^verbatim>\<open>reverseName\<close> of every field left out.\<close>

definition withoutReverseName :: "FieldMetadata \<Rightarrow> FieldMetadata" where
  "withoutReverseName field = field\<lparr>fm_reverseName := None\<rparr>"

definition withoutReverseNames :: "TypeMetadata \<Rightarrow> TypeMetadata" where
  "withoutReverseNames tm = tm\<lparr>tm_fields := map withoutReverseName (tm_fields tm)\<rparr>"

subsection \<open>Example inputs\<close>

text \<open>
  The metadata of the end-to-end scenario of the specification (an author with a connection
  to books, a book with a required reference to its author), a publisher whose connection to
  books is required, two types that refer to each other, a type with a connection field
  that lacks its target, a built-in type, and a configuration without built-in types.
\<close>

definition idField :: FieldMetadata where
  "idField =
     \<lparr>fm_name = ''id'', fm_type = ''id'', fm_isRequired = Some True,
      fm_isDeprecated = None, fm_target = None, fm_reverseName = None\<rparr>"

definition nameField :: FieldMetadata where
  "nameField =
     \<lparr>fm_name = ''name'', fm_type = ''string'', fm_isRequired = Some True,
      fm_isDeprecated = None, fm_target = None, fm_reverseName = None\<rparr>"

definition booksField :: FieldMetadata where
  "booksField =
     \<lparr>fm_name = ''books'', fm_type = ''connection'', fm_isRequired = None,
      fm_isDeprecated = None, fm_target = Some ''Book'', fm_reverseName = Some ''authorId''\<rparr>"

definition titleField :: FieldMetadata where
  "titleField =
     \<lparr>fm_name = ''title'', fm_type = ''string'', fm_isRequired = Some True,
      fm_isDeprecated = None, fm_target = None, fm_reverseName = None\<rparr>"

definition authorField :: FieldMetadata where
  "authorField =
     \<lparr>fm_name = ''author'', fm_type = ''Author'', fm_isRequired = Some True,
      fm_isDeprecated = None, fm_target = None, fm_reverseName = None\<rparr>"

definition requiredBooksField :: FieldMetadata where
  "requiredBooksField =
     \<lparr>fm_name = ''books'', fm_type = ''connection'', fm_isRequired = Some True,
      fm_isDeprecated = None, fm_target = Some ''Book'',
      fm_reverseName = Some ''publisherId''\<rparr>"

definition authorMetadata :: TypeMetadata where
  "authorMetadata = \<lparr>tm_name = ''Author'', tm_fields = [idField, nameField, booksField]\<rparr>"

definition bookMetadata :: TypeMetadata where
  "bookMetadata = \<lparr>tm_name = ''Book'', tm_fields = [idField, titleField, authorField]\<rparr>"

definition publisherMetadata :: TypeMetadata where
  "publisherMetadata = \<lparr>tm_name = ''Publisher'', tm_fields = [idField, requiredBooksField]\<rparr>"

definition exampleMetadata :: "TypeMetadata list" where
  "exampleMetadata = [authorMetadata, bookMetadata, publisherMetadata]"

text \<open>The author of the scenario, with the \<^verbatim>\<open>reverseName\<close> of its connection left out.\<close>

definition authorWithoutReverseName :: TypeMetadata where
  "authorWithoutReverseName =
     \<lparr>tm_name = ''Author'',
      tm_fields = [idField, nameField, booksField\<lparr>fm_reverseName := None\<rparr>]\<rparr>"

text \<open>A connection field with neither \<^verbatim>\<open>target\<close> nor \<^verbatim>\<open>reverseName\<close>.\<close>

definition danglingField :: FieldMetadata where
  "danglingField =
     \<lparr>fm_name = ''books'', fm_type = ''connection'', fm_isRequired = None,
      fm_isDeprecated = None, fm_target = None, fm_reverseName = None\<rparr>"

definition shelfMetadata :: TypeMetadata where
  "shelfMetadata = \<lparr>tm_name = ''Shelf'', tm_fields = [idField, danglingField]\<rparr>"

text \<open>A type whose name is \<^verbatim>\<open>connection\<close>, and the field compiled from \<open>danglingField\<close>.\<close>

definition connectionMetadata :: TypeMetadata where
  "connectionMetadata = \<lparr>tm_name = ''connection'', tm_fields = [idField, nameField]\<rparr>"

definition compiledDanglingField :: Field where
  "compiledDanglingField =
     \<lparr>f_name = ''books'', f_type = createType connectionMetadata, f_args = [],
      f_resolve = ResolveById ''connection'' ''books'', f_isDeprecated = False\<rparr>"

text \<open>Two types that refer to each other.\<close>

definition employerField :: FieldMetadata where
  "employerField =
     \<lparr>fm_name = ''employer'', fm_type = ''Company'', fm_isRequired = None,
      fm_isDeprecated = None, fm_target = None, fm_reverseName = None\<rparr>"

definition ownerField :: FieldMetadata where
  "ownerField =
     \<lparr>fm_name = ''owner'', fm_type = ''Person'', fm_isRequired = Some True,
      fm_isDeprecated = None, fm_target = None, fm_reverseName = None\<rparr>"

definition personMetadata :: TypeMetadata where
  "personMetadata = \<lparr>tm_name = ''Person'', tm_fields = [idField, nameField, employerField]\<rparr>"

definition companyMetadata :: TypeMetadata where
  "companyMetadata = \<lparr>tm_name = ''Company'', tm_fields = [idField, ownerField]\<rparr>"

definition userType :: gql_type where
  "userType =
     GraphQLObjectType ''User'' []
       (FieldsObject [(''id'', GraphQLNonNull GraphQLID), (''name'', GraphQLString)])"

definition noCommonTypes :: SchemaConfig where
  "noCommonTypes =
     \<lparr>commonTypes = [], commonQueryFields = [], commonMutationFields = [],
      typeQueryFieldCreators = [], typeMutationFieldCreators = []\<rparr>"

definition userConfig :: SchemaConfig where
  "userConfig = noCommonTypes\<lparr>commonTypes := [(''User'', userType)]\<rparr>"

text \<open>The registry that pass 1 builds from \<open>exampleMetadata\<close>, and one of its entries.\<close>

definition exampleTypeSets :: "(string \<times> TypeSet) list" where
  "exampleTypeSets =
     (case addCustomTypes createInterfaces [] exampleMetadata of
        Inl e \<Rightarrow> []
      | Inr typeSets \<Rightarrow> typeSets)"

definition entryOf :: "string \<Rightarrow> TypeSet" where
  "entryOf name =
     (case map_of exampleTypeSets name of None \<Rightarrow> newTypeSet Undefined | Some ts \<Rightarrow> ts)"

text \<open>The field that \<^verbatim>\<open>createField\<close> compiles from \<open>authorField\<close>.\<close>

definition compiledAuthorField :: Field where
  "compiledAuthorField =
     \<lparr>f_name = ''author'', f_type = GraphQLNonNull (createType authorMetadata),
      f_args = [], f_resolve = ResolveById ''Author'' ''author'', f_isDeprecated = False\<rparr>"

section \<open>Properties\<close>

subsection \<open>Auxiliary facts: errors, seeding, the branches of the field compiler\<close>

lemma error_is_TypeError: "(e::error) = TypeError"
  by (cases e) simp

lemma seedTypeSet_throws: "seedTypeSet interfaces ty = Inl TypeError"
  by (simp add: seedTypeSet_def createInputObject_def Let_def error_is_TypeError
      split: sum.splits)

lemma seedTypeSets_Cons: "seedTypeSets interfaces (kv # rest) = Inl TypeError"
  by (cases kv) (simp add: seedTypeSets_def seedTypeSet_throws)

lemma seedTypeSets_Nil: "seedTypeSets interfaces [] = Inr []"
  by (simp add: seedTypeSets_def)

lemma createField_Inr_iff:
  "createField g field = Inr fd \<longleftrightarrow>
     (\<exists>ty argDef resolve.
        createField_branch g field = Inr (ty, argDef, resolve) \<and>
        fd = \<lparr>f_name = fm_name field,
              f_type = (if fm_isRequired field = Some True then GraphQLNonNull ty else ty),
              f_args = argDef, f_resolve = resolve,
              f_isDeprecated = (fm_isDeprecated field = Some True)\<rparr>)"
  by (auto simp: createField_def split: sum.splits)

lemma branch_connection:
  "fm_type field = ''connection'' \<Longrightarrow> fm_target field = Some target \<Longrightarrow>
   createField_branch g field =
     (case g target of None \<Rightarrow> Inl TypeError
      | Some ts \<Rightarrow> Inr (connection ts, createConnectionArguments,
                        ResolveConnection target (fm_reverseName field)))"
  by (simp add: createField_branch_def)

lemma branch_other:
  "\<not> (fm_type field = ''connection'' \<and> fm_target field \<noteq> None) \<Longrightarrow>
   createField_branch g field =
     (case map_of PRIMITIVE_TYPE_MAP (fm_type field) of
        Some scalar \<Rightarrow> Inr (scalar, [], NoResolve)
      | None \<Rightarrow>
          (case g (fm_type field) of
             None \<Rightarrow> Inl TypeError
           | Some ts \<Rightarrow> Inr (type ts, [], ResolveById (fm_type field) (fm_name field))))"
  by (auto simp: createField_branch_def Let_def)

subsection \<open>Auxiliary facts: which fields fail to compile\<close>

lemma primitive_key_iff:
  "k \<in> fst ` set PRIMITIVE_TYPE_MAP \<longleftrightarrow> map_of PRIMITIVE_TYPE_MAP k \<noteq> None"
  by (simp add: map_of_eq_None_iff)

lemma createField_branch_fails_iff:
  "(\<exists>e. createField_branch g field = Inl e) \<longleftrightarrow>
     (\<exists>n. referencedName field = Some n \<and> g n = None)"
proof (cases "fm_type field = ''connection'' \<and> fm_target field \<noteq> None")
  case True
  then obtain target where t: "fm_target field = Some target" by auto
  with True have "referencedName field = Some target" by (simp add: referencedName_def)
  with True t show ?thesis by (simp add: branch_connection split: option.splits)
next
  case False
  then have r: "referencedName field =
      (if map_of PRIMITIVE_TYPE_MAP (fm_type field) \<noteq> None then None else Some (fm_type field))"
    by (auto simp: referencedName_def primitive_key_iff)
  show ?thesis
    unfolding r branch_other [OF False]
    by (simp split: option.splits)
qed

lemma createField_fails_iff:
  "createField g field = Inl TypeError \<longleftrightarrow>
     (\<exists>n. referencedName field = Some n \<and> g n = None)"
proof -
  have "createField g field = Inl TypeError \<longleftrightarrow> (\<exists>e. createField_branch g field = Inl e)"
    by (auto simp: createField_def error_is_TypeError split: sum.splits)
  then show ?thesis by (simp add: createField_branch_fails_iff)
qed

subsection \<open>Auxiliary facts: the thunk of a field map\<close>

lemma fieldsThunk_fails_iff:
  "fieldsThunk g obj fs = Inl TypeError \<longleftrightarrow> (\<exists>f\<in>set fs. createField g f = Inl TypeError)"
proof (induction fs arbitrary: obj)
  case Nil
  then show ?case by simp
next
  case (Cons f fs)
  show ?case
  proof (cases "createField g f")
    case (Inl e)
    then show ?thesis by (simp add: error_is_TypeError)
  next
    case (Inr fd)
    then show ?thesis by (simp add: Cons.IH)
  qed
qed

lemma fieldsThunk_cases:
  "fieldsThunk g obj fs = Inl TypeError \<or> (\<exists>r. fieldsThunk g obj fs = Inr r)"
  by (cases "fieldsThunk g obj fs") (auto simp: error_is_TypeError)

lemma set_update_subset: "set (AList.update k v al) \<subseteq> insert (k, v) (set al)"
  by (induction al) auto

lemma fieldsThunk_entries:
  "fieldsThunk g obj fs = Inr r \<Longrightarrow> (k, fd) \<in> set r \<Longrightarrow>
     (k, fd) \<in> set obj \<or> (\<exists>f\<in>set fs. k = fm_name f \<and> createField g f = Inr fd)"
proof (induction fs arbitrary: obj)
  case Nil
  then show ?case by simp
next
  case (Cons f fs)
  from Cons.prems(1) obtain fd0 where
    c: "createField g f = Inr fd0" and
    r: "fieldsThunk g (AList.update (fm_name f) fd0 obj) fs = Inr r"
    by (auto split: sum.splits)
  from Cons.IH [OF r Cons.prems(2)]
  have "(k, fd) \<in> set (AList.update (fm_name f) fd0 obj) \<or>
        (\<exists>f\<in>set fs. k = fm_name f \<and> createField g f = Inr fd)" .
  then show ?case
  proof
    assume "(k, fd) \<in> set (AList.update (fm_name f) fd0 obj)"
    with set_update_subset have "(k, fd) = (fm_name f, fd0) \<or> (k, fd) \<in> set obj" by fastforce
    with c show ?thesis by auto
  next
    assume "\<exists>f\<in>set fs. k = fm_name f \<and> createField g f = Inr fd"
    then show ?thesis by auto
  qed
qed

lemma fieldsThunk_other_key:
  "fieldsThunk g obj fs = Inr r \<Longrightarrow> k \<notin> fm_name ` set fs \<Longrightarrow> map_of r k = map_of obj k"
proof (induction fs arbitrary: obj)
  case Nil
  then show ?case by simp
next
  case (Cons f fs)
  from Cons.prems obtain fd0 where
    r: "fieldsThunk g (AList.update (fm_name f) fd0 obj) fs = Inr r"
    by (auto split: sum.splits)
  from Cons.prems have "k \<notin> fm_name ` set fs" "k \<noteq> fm_name f" by auto
  with Cons.IH [OF r] show ?case by (simp add: update_conv')
qed

lemma fieldsThunk_lookup:
  "fieldsThunk g obj fs = Inr r \<Longrightarrow> distinct (map fm_name fs) \<Longrightarrow> f \<in> set fs \<Longrightarrow>
     \<exists>fd. map_of r (fm_name f) = Some fd \<and> createField g f = Inr fd"
proof (induction fs arbitrary: obj)
  case Nil
  then show ?case by simp
next
  case (Cons f0 fs)
  from Cons.prems(1) obtain fd0 where
    c: "createField g f0 = Inr fd0" and
    r: "fieldsThunk g (AList.update (fm_name f0) fd0 obj) fs = Inr r"
    by (auto split: sum.splits)
  show ?case
  proof (cases "f = f0")
    case True
    from Cons.prems(2) have "fm_name f0 \<notin> fm_name ` set fs" by simp
    with fieldsThunk_other_key [OF r]
    have "map_of r (fm_name f0) = Some fd0" by (simp add: update_conv')
    with c True show ?thesis by simp
  next
    case False
    with Cons.prems have "f \<in> set fs" "distinct (map fm_name fs)" by auto
    with Cons.IH [OF r] show ?thesis by blast
  qed
qed

lemma fieldsThunk_distinct:
  "fieldsThunk g obj fs = Inr r \<Longrightarrow> distinct (map fst obj) \<Longrightarrow> distinct (map fst r)"
proof (induction fs arbitrary: obj)
  case Nil
  then show ?case by simp
next
  case (Cons f fs)
  from Cons.prems obtain fd0 where
    r: "fieldsThunk g (AList.update (fm_name f) fd0 obj) fs = Inr r"
    by (auto split: sum.splits)
  from Cons.IH [OF r] Cons.prems(2) show ?case by (simp add: distinct_update)
qed

lemma getFields_createType:
  "getFields reg (createType tm) = fieldsThunk (map_of reg) [] (tm_fields tm)"
  by (simp add: createType_def)

lemma getFields_unresolved:
  assumes "f \<in> set (tm_fields tm)" "referencedName f = Some n" "n \<notin> fst ` set reg"
  shows "getFields reg (createType tm) = Inl TypeError"
proof -
  from assms(3) have "map_of reg n = None" by (simp add: map_of_eq_None_iff)
  with assms(2) have "createField (map_of reg) f = Inl TypeError"
    by (auto simp: createField_fails_iff)
  with assms(1) show ?thesis
    by (auto simp: getFields_createType fieldsThunk_fails_iff)
qed

subsection \<open>Auxiliary facts: filtering and mapping with exceptions\<close>

lemma filterFields_Inr:
  "filterFields C fs = Inr kept \<Longrightarrow> kept = filter (\<lambda>kv. keepInputField C kv = Inr True) fs"
proof (induction fs arbitrary: kept)
  case Nil
  then show ?case by simp
next
  case (Cons kv fs)
  then show ?case by (auto split: sum.splits if_splits)
qed

lemma filterFields_total:
  "\<forall>kv\<in>set fs. \<exists>b. keepInputField C kv = Inr b \<Longrightarrow> \<exists>kept. filterFields C fs = Inr kept"
proof (induction fs)
  case Nil
  then show ?case by simp
next
  case (Cons kv fs)
  then show ?case by (auto split: sum.splits)
qed

lemma mapValues_fails:
  "(k, v) \<in> set xs \<Longrightarrow> f v = Inl e \<Longrightarrow> mapValues f xs = Inl TypeError"
proof (induction xs)
  case Nil
  then show ?case by simp
next
  case (Cons kv xs)
  obtain k0 v0 where kv: "kv = (k0, v0)" by (cases kv)
  with Cons show ?case by (auto simp: error_is_TypeError split: sum.splits)
qed

lemma mapValues_total:
  "\<forall>(k, v)\<in>set xs. \<exists>y. f v = Inr y \<Longrightarrow> \<exists>ys. mapValues f xs = Inr ys"
proof (induction xs)
  case Nil
  then show ?case by simp
next
  case (Cons kv xs)
  obtain k0 v0 where kv: "kv = (k0, v0)" by (cases kv)
  with Cons show ?case by (auto split: sum.splits)
qed

lemma mapValues_entries:
  "mapValues f xs = Inr ys \<Longrightarrow> (k, y) \<in> set ys \<Longrightarrow> \<exists>v. (k, v) \<in> set xs \<and> f v = Inr y"
proof (induction xs arbitrary: ys)
  case Nil
  then show ?case by simp
next
  case (Cons kv xs)
  obtain k0 v0 where kv: "kv = (k0, v0)" by (cases kv)
  with Cons.prems obtain y0 ys0 where
    "f v0 = Inr y0" "mapValues f xs = Inr ys0" "ys = (k0, y0) # ys0"
    by (auto split: sum.splits)
  with Cons.IH [of ys0] Cons.prems(2) kv show ?case by auto
qed

lemma mapValues_lookup:
  "mapValues f xs = Inr ys \<Longrightarrow>
     map_of ys k = (case map_of xs k of None \<Rightarrow> None
                    | Some v \<Rightarrow> (case f v of Inl e \<Rightarrow> None | Inr y \<Rightarrow> Some y)) \<and>
     (\<forall>v. map_of xs k = Some v \<longrightarrow> (\<exists>y. f v = Inr y))"
proof (induction xs arbitrary: ys)
  case Nil
  then show ?case by simp
next
  case (Cons kv xs)
  obtain k0 v0 where kv: "kv = (k0, v0)" by (cases kv)
  with Cons.prems obtain y0 ys0 where
    "f v0 = Inr y0" "mapValues f xs = Inr ys0" "ys = (k0, y0) # ys0"
    by (auto split: sum.splits)
  with Cons.IH [of ys0] kv show ?case by auto
qed

lemma map_of_filter_map:
  assumes "distinct (map fst xs)" "map_of xs k = Some v" "P (k, v)"
  shows "map_of (map (\<lambda>kv. (fst kv, h (snd kv))) (filter P xs)) k = Some (h v)"
proof -
  from assms(2) have "(k, v) \<in> set xs" by (rule map_of_SomeD)
  with assms(3) have "(k, h v) \<in> set (map (\<lambda>kv. (fst kv, h (snd kv))) (filter P xs))"
    by force
  moreover have "map fst (map (\<lambda>kv. (fst kv, h (snd kv))) (filter P xs)) = map fst (filter P xs)"
    by (simp add: comp_def)
  with assms(1) have "distinct (map fst (map (\<lambda>kv. (fst kv, h (snd kv))) (filter P xs)))"
    by (simp only: distinct_map_filter)
  ultimately show ?thesis by (rule map_of_is_SomeI [rotated])
qed

subsection \<open>Auxiliary facts: the registry after pass 1\<close>

lemma createConnection_createType:
  "\<exists>c. createConnection (newTypeSet (createType tm)) ifs = Inr c"
  by (simp add: createConnection_def createType_def newTypeSet_def)

lemma createConnection_shape:
  "createConnection ts ifs = Inr c \<Longrightarrow> \<exists>n fs. c = GraphQLObjectType n [Connection ifs] fs"
  by (auto simp: createConnection_def split: sum.splits)

lemma addCustomTypes_step:
  "\<exists>ts. pass1Entry ifs tm ts \<and>
     addCustomTypes ifs reg (tm # rest) =
       addCustomTypes ifs (AList.update (tm_name tm) ts reg) rest"
proof -
  obtain c where c: "createConnection (newTypeSet (createType tm)) ifs = Inr c"
    using createConnection_createType by blast
  let ?ts = "(newTypeSet (createType tm))\<lparr>connection := c\<rparr>"
  have "pass1Entry ifs tm ?ts" using c by (simp add: pass1Entry_def newTypeSet_def)
  moreover have "addCustomTypes ifs reg (tm # rest) =
       addCustomTypes ifs (AList.update (tm_name tm) ?ts reg) rest"
    using c by (simp add: Let_def)
  ultimately show ?thesis by blast
qed

lemma addCustomTypes_total: "\<exists>reg'. addCustomTypes ifs reg md = Inr reg'"
proof (induction md arbitrary: reg)
  case Nil
  then show ?case by simp
next
  case (Cons tm md)
  from addCustomTypes_step [of ifs tm reg md] Cons.IH show ?case by metis
qed

lemma addCustomTypes_other_key:
  "addCustomTypes ifs reg md = Inr reg' \<Longrightarrow> k \<notin> tm_name ` set md \<Longrightarrow>
     map_of reg' k = map_of reg k"
proof (induction md arbitrary: reg)
  case Nil
  then show ?case by simp
next
  case (Cons tm md)
  from addCustomTypes_step [of ifs tm reg md] obtain ts where
    step: "addCustomTypes ifs reg (tm # md) =
             addCustomTypes ifs (AList.update (tm_name tm) ts reg) md"
    by blast
  with Cons.prems have r: "addCustomTypes ifs (AList.update (tm_name tm) ts reg) md = Inr reg'"
    by simp
  from Cons.prems have "k \<notin> tm_name ` set md" "k \<noteq> tm_name tm" by auto
  with Cons.IH [OF r] show ?case by (simp add: update_conv')
qed

lemma addCustomTypes_lookup:
  "addCustomTypes ifs reg md = Inr reg' \<Longrightarrow> distinct (map tm_name md) \<Longrightarrow> tm \<in> set md \<Longrightarrow>
     \<exists>ts. map_of reg' (tm_name tm) = Some ts \<and> pass1Entry ifs tm ts"
proof (induction md arbitrary: reg)
  case Nil
  then show ?case by simp
next
  case (Cons tm0 md)
  from addCustomTypes_step [of ifs tm0 reg md] obtain ts where
    e: "pass1Entry ifs tm0 ts" and
    step: "addCustomTypes ifs reg (tm0 # md) =
             addCustomTypes ifs (AList.update (tm_name tm0) ts reg) md"
    by blast
  with Cons.prems have r: "addCustomTypes ifs (AList.update (tm_name tm0) ts reg) md = Inr reg'"
    by simp
  show ?case
  proof (cases "tm = tm0")
    case True
    from Cons.prems(2) have "tm_name tm0 \<notin> tm_name ` set md" by simp
    with addCustomTypes_other_key [OF r]
    have "map_of reg' (tm_name tm0) = Some ts" by (simp add: update_conv')
    with e True show ?thesis by simp
  next
    case False
    with Cons.prems have "tm \<in> set md" "distinct (map tm_name md)" by auto
    with Cons.IH [OF r] show ?thesis by blast
  qed
qed

lemma addCustomTypes_entries:
  "addCustomTypes ifs reg md = Inr reg' \<Longrightarrow> (k, ts) \<in> set reg' \<Longrightarrow>
     (k, ts) \<in> set reg \<or> (\<exists>tm\<in>set md. k = tm_name tm \<and> pass1Entry ifs tm ts)"
proof (induction md arbitrary: reg)
  case Nil
  then show ?case by simp
next
  case (Cons tm0 md)
  from addCustomTypes_step [of ifs tm0 reg md] obtain ts0 where
    e: "pass1Entry ifs tm0 ts0" and
    step: "addCustomTypes ifs reg (tm0 # md) =
             addCustomTypes ifs (AList.update (tm_name tm0) ts0 reg) md"
    by blast
  with Cons.prems have r: "addCustomTypes ifs (AList.update (tm_name tm0) ts0 reg) md = Inr reg'"
    by simp
  from Cons.IH [OF r Cons.prems(2)]
  have "(k, ts) \<in> set (AList.update (tm_name tm0) ts0 reg) \<or>
        (\<exists>tm\<in>set md. k = tm_name tm \<and> pass1Entry ifs tm ts)" .
  then show ?case
  proof
    assume "(k, ts) \<in> set (AList.update (tm_name tm0) ts0 reg)"
    with set_update_subset have "(k, ts) = (tm_name tm0, ts0) \<or> (k, ts) \<in> set reg"
      by fastforce
    with e show ?thesis by auto
  next
    assume "\<exists>tm\<in>set md. k = tm_name tm \<and> pass1Entry ifs tm ts"
    then show ?thesis by auto
  qed
qed

lemma addCustomTypes_keys:
  "addCustomTypes ifs reg md = Inr reg' \<Longrightarrow> fst ` set reg' = fst ` set reg \<union> tm_name ` set md"
proof (induction md arbitrary: reg)
  case Nil
  then show ?case by simp
next
  case (Cons tm0 md)
  from addCustomTypes_step [of ifs tm0 reg md] obtain ts0 where
    step: "addCustomTypes ifs reg (tm0 # md) =
             addCustomTypes ifs (AList.update (tm_name tm0) ts0 reg) md"
    by blast
  with Cons.prems have r: "addCustomTypes ifs (AList.update (tm_name tm0) ts0 reg) md = Inr reg'"
    by simp
  from Cons.IH [OF r] show ?case by (auto simp: dom_update)
qed

lemma pass1_types:
  "addCustomTypes ifs [] md = Inr pass1 \<Longrightarrow> (k, ts) \<in> set pass1 \<Longrightarrow>
     \<exists>tm\<in>set md. k = tm_name tm \<and> pass1Entry ifs tm ts"
  using addCustomTypes_entries [of ifs "[]" md pass1 k ts] by simp

lemma pass1Entry_defined:
  "pass1Entry ifs tm ts \<Longrightarrow> type ts \<noteq> Undefined \<and> connection ts \<noteq> Undefined"
  by (auto simp: pass1Entry_def createType_def dest: createConnection_shape)

subsection \<open>Auxiliary facts: pass 2 leaves the thunks unchanged\<close>

lemma addInputAndMutation_Inr:
  "addInputAndMutation ifs reg ts = Inr ts' \<Longrightarrow>
     type ts' = type ts \<and> connection ts' = connection ts \<and>
     createInputObject reg ts (Some ifs) = Inr (inputObject ts') \<and>
     createMutation ts ifs = Inr (mutation ts')"
  by (auto simp: addInputAndMutation_def split: sum.splits)

lemma createField_branch_cong:
  assumes "\<And>k. rel_option (\<lambda>a b. type a = type b \<and> connection a = connection b) (g k) (g' k)"
  shows "createField_branch g field = createField_branch g' field"
proof -
  have a: "\<And>k. (case g k of None \<Rightarrow> Inl TypeError | Some ts \<Rightarrow> Inr (F (connection ts) (type ts))) =
           (case g' k of None \<Rightarrow> Inl TypeError | Some ts \<Rightarrow> Inr (F (connection ts) (type ts)))" for F :: "gql_type \<Rightarrow> gql_type \<Rightarrow> 'x"
  proof -
    fix k
    from assms [of k] show "(case g k of None \<Rightarrow> Inl TypeError | Some ts \<Rightarrow> Inr (F (connection ts) (type ts))) =
           (case g' k of None \<Rightarrow> Inl TypeError | Some ts \<Rightarrow> Inr (F (connection ts) (type ts)))"
      by (cases "g k"; cases "g' k") auto
  qed
  show ?thesis
  proof (cases "fm_type field = ''connection'' \<and> fm_target field \<noteq> None")
    case True
    then obtain target where t: "fm_target field = Some target" by auto
    from True t a [of "\<lambda>c ty. (c, createConnectionArguments, ResolveConnection target (fm_reverseName field))" target]
    show ?thesis by (simp add: branch_connection)
  next
    case False
    from a [of "\<lambda>c ty. (ty, [], ResolveById (fm_type field) (fm_name field))" "fm_type field"]
    show ?thesis by (simp add: branch_other [OF False] split: option.splits)
  qed
qed

lemma createField_cong:
  assumes "\<And>k. rel_option (\<lambda>a b. type a = type b \<and> connection a = connection b) (g k) (g' k)"
  shows "createField g field = createField g' field"
  by (simp add: createField_def createField_branch_cong [OF assms])

lemma fieldsThunk_cong:
  assumes "\<And>k. rel_option (\<lambda>a b. type a = type b \<and> connection a = connection b) (g k) (g' k)"
  shows "fieldsThunk g obj fs = fieldsThunk g' obj fs"
proof (induction fs arbitrary: obj)
  case Nil
  then show ?case by simp
next
  case (Cons f fs)
  have "createField g f = createField g' f" by (rule createField_cong [OF assms])
  with Cons.IH show ?case by (simp split: sum.splits)
qed

lemma getFields_cong:
  assumes "\<And>k. rel_option (\<lambda>a b. type a = type b \<and> connection a = connection b)
                  (map_of reg k) (map_of reg' k)"
  shows "getFields reg ty = getFields reg' ty"
proof (cases ty)
  case (GraphQLObjectType n ifaces fs)
  then show ?thesis by (cases fs) (simp_all add: fieldsThunk_cong [OF assms])
qed simp_all

lemma addInputsAndMutations_rel:
  assumes "addInputsAndMutations ifs reg = Inr reg'"
  shows "rel_option (\<lambda>a b. type a = type b \<and> connection a = connection b)
           (map_of reg k) (map_of reg' k)"
proof -
  from assms have m: "mapValues (addInputAndMutation ifs reg) reg = Inr reg'"
    by (simp add: addInputsAndMutations_def)
  show ?thesis
  proof (cases "map_of reg k")
    case None
    with mapValues_lookup [OF m, of k] show ?thesis by simp
  next
    case (Some ts)
    with mapValues_lookup [OF m, of k] obtain ts' where
      "addInputAndMutation ifs reg ts = Inr ts'" "map_of reg' k = Some ts'"
      by auto
    with Some addInputAndMutation_Inr [of ifs reg ts ts'] show ?thesis by simp
  qed
qed

lemma getFields_after_pass2:
  "addInputsAndMutations ifs reg = Inr reg' \<Longrightarrow> getFields reg' ty = getFields reg ty"
proof -
  assume a: "addInputsAndMutations ifs reg = Inr reg'"
  have "getFields reg ty = getFields reg' ty"
    by (rule getFields_cong) (rule addInputsAndMutations_rel [OF a])
  then show ?thesis by simp
qed

lemma buildTypeSets_Inr:
  "buildTypeSets config md = Inr typeSets \<Longrightarrow>
     commonTypes config = [] \<and>
     (\<exists>pass1. addCustomTypes createInterfaces [] md = Inr pass1 \<and>
        addInputsAndMutations createInterfaces pass1 = Inr typeSets)"
proof -
  assume a: "buildTypeSets config md = Inr typeSets"
  have c: "commonTypes config = []"
  proof (cases "commonTypes config")
    case (Cons kv rest)
    with a show ?thesis by (simp add: buildTypeSets_def seedTypeSets_Cons)
  qed simp
  with a show ?thesis
    by (auto simp: buildTypeSets_def seedTypeSets_Nil split: sum.splits)
qed

lemma createSchema_Inr_iff:
  "(\<exists>schema. createSchema config md = Inr schema) \<longleftrightarrow>
     (\<exists>typeSets. buildTypeSets config md = Inr typeSets)"
  by (auto simp: createSchema_def Let_def split: sum.splits)

lemma createSchema_Inl_iff:
  "createSchema config md = Inl TypeError \<longleftrightarrow> buildTypeSets config md = Inl TypeError"
  by (auto simp: createSchema_def Let_def error_is_TypeError split: sum.splits)

subsection \<open>Auxiliary facts: input objects\<close>

lemma createInputObject_getFields_fails:
  "getFields reg (type ts) = Inl e \<Longrightarrow> createInputObject reg ts ifs = Inl TypeError"
  by (simp add: createInputObject_def error_is_TypeError split: option.splits sum.splits)

lemma createInputObject_Inr:
  "createInputObject reg ts (Some ifs) = Inr io \<Longrightarrow>
     \<exists>n fieldMap kept.
       nameOf (type ts) = Inr n \<and> getFields reg (type ts) = Inr fieldMap \<and>
       filterFields (Connection ifs) fieldMap = Inr kept \<and>
       io = GraphQLInputObjectType (''_'' @ n @ ''InputObject'') (map inputField kept)"
  by (auto simp: createInputObject_def split: sum.splits)

lemma keepInputField_plain:
  assumes "f_type fd = ty \<or> f_type fd = GraphQLNonNull ty"
    and "(\<exists>n. ty = GraphQLScalarType n) \<or> (\<exists>n fs. ty = GraphQLObjectType n [] fs)"
  shows "keepInputField C (k, fd) = Inr (k \<noteq> ''id'')"
  using assms by auto

lemma keepInputField_defined:
  "f_type fd \<noteq> Undefined \<Longrightarrow> \<exists>b. keepInputField C (k, fd) = Inr b"
  by (cases "f_type fd") auto

lemma createField_plain_type:
  assumes c: "createField (map_of reg) f = Inr fd"
    and nc: "fm_type f \<noteq> ''connection''"
    and reg: "\<forall>k ts. (k, ts) \<in> set reg \<longrightarrow> (\<exists>tm. type ts = createType tm)"
  shows "\<exists>ty. (f_type fd = ty \<or> f_type fd = GraphQLNonNull ty) \<and>
           ((\<exists>n. ty = GraphQLScalarType n) \<or> (\<exists>n fs. ty = GraphQLObjectType n [] fs))"
proof -
  from c obtain ty argDef resolve where
    br: "createField_branch (map_of reg) f = Inr (ty, argDef, resolve)" and
    fd: "f_type fd = (if fm_isRequired f = Some True then GraphQLNonNull ty else ty)"
    by (auto simp: createField_Inr_iff)
  from nc have o: "\<not> (fm_type f = ''connection'' \<and> fm_target f \<noteq> None)" by simp
  have "(\<exists>n. ty = GraphQLScalarType n) \<or> (\<exists>n fs. ty = GraphQLObjectType n [] fs)"
  proof (cases "map_of PRIMITIVE_TYPE_MAP (fm_type f)")
    case (Some scalar)
    with br have "ty = scalar" by (simp add: branch_other [OF o])
    moreover from Some have "(fm_type f, scalar) \<in> set PRIMITIVE_TYPE_MAP" by (rule map_of_SomeD)
    then have "\<exists>n. scalar = GraphQLScalarType n" by (auto simp: PRIMITIVE_TYPE_MAP_def)
    ultimately show ?thesis by simp
  next
    case None
    with br obtain ts where "map_of reg (fm_type f) = Some ts" "ty = type ts"
      by (auto simp: branch_other [OF o] split: option.splits)
    moreover from this have "(fm_type f, ts) \<in> set reg" by (simp add: map_of_SomeD)
    ultimately show ?thesis using reg by (fastforce simp: createType_def)
  qed
  with fd show ?thesis by auto
qed

lemma createField_defined_type:
  assumes c: "createField (map_of reg) f = Inr fd"
    and reg: "\<forall>k ts. (k, ts) \<in> set reg \<longrightarrow> type ts \<noteq> Undefined \<and> connection ts \<noteq> Undefined"
  shows "f_type fd \<noteq> Undefined"
proof -
  from c obtain ty argDef resolve where
    br: "createField_branch (map_of reg) f = Inr (ty, argDef, resolve)" and
    fd: "f_type fd = (if fm_isRequired f = Some True then GraphQLNonNull ty else ty)"
    by (auto simp: createField_Inr_iff)
  have "ty \<noteq> Undefined"
  proof (cases "fm_type f = ''connection'' \<and> fm_target f \<noteq> None")
    case True
    then obtain target where t: "fm_target f = Some target" by auto
    with True br obtain ts where "map_of reg target = Some ts" "ty = connection ts"
      by (auto simp: branch_connection split: option.splits)
    moreover from this have "(target, ts) \<in> set reg" by (simp add: map_of_SomeD)
    ultimately show ?thesis using reg by auto
  next
    case False
    show ?thesis
    proof (cases "map_of PRIMITIVE_TYPE_MAP (fm_type f)")
      case (Some scalar)
      with br have "ty = scalar" by (simp add: branch_other [OF False])
      moreover from Some have "(fm_type f, scalar) \<in> set PRIMITIVE_TYPE_MAP"
        by (rule map_of_SomeD)
      then have "\<exists>n. scalar = GraphQLScalarType n" by (auto simp: PRIMITIVE_TYPE_MAP_def)
      ultimately show ?thesis by auto
    next
      case None
      with br obtain ts where "map_of reg (fm_type f) = Some ts" "ty = type ts"
        by (auto simp: branch_other [OF False] split: option.splits)
      moreover from this have "(fm_type f, ts) \<in> set reg" by (simp add: map_of_SomeD)
      ultimately show ?thesis using reg by auto
    qed
  qed
  with fd show ?thesis by simp
qed

lemma inputFieldType_List:
  "inputFieldType (GraphQLList t) =
     (if isInputOrScalar t then GraphQLList t else GraphQLList GraphQLString)"
  by (simp add: inputFieldType_def)

lemma inputFieldType_NonNull:
  "inputFieldType (GraphQLNonNull t) =
     (if isInputOrScalar t then GraphQLNonNull t else GraphQLNonNull GraphQLString)"
  by (simp add: inputFieldType_def)

lemma inputFieldType_bare:
  "\<forall>t. ty \<noteq> GraphQLList t \<and> ty \<noteq> GraphQLNonNull t \<Longrightarrow>
   inputFieldType ty = (if isInputOrScalar ty then ty else GraphQLString)"
  by (cases ty) (simp_all add: inputFieldType_def)

lemma kept_field_in_inputObject:
  assumes "createInputObject typeSets typeSet (Some interfaces) = Inr io"
    and "getFields typeSets (type typeSet) = Inr fieldMap"
    and "(name, field) \<in> set fieldMap"
    and "keepInputField (Connection interfaces) (name, field) = Inr True"
  shows "\<exists>n obj. io = GraphQLInputObjectType n obj \<and>
           (name, inputFieldType (f_type field)) \<in> set obj"
proof -
  from createInputObject_Inr [OF assms(1)] assms(2) obtain n kept where
    ff: "filterFields (Connection interfaces) fieldMap = Inr kept" and
    io: "io = GraphQLInputObjectType (''_'' @ n @ ''InputObject'') (map inputField kept)"
    by auto
  from filterFields_Inr [OF ff] assms(3,4) have "(name, field) \<in> set kept" by simp
  then have "inputField (name, field) \<in> set (map inputField kept)" by (rule imageI [THEN subst [OF set_map [symmetric], where P = "\<lambda>S. _ \<in> S"]])
  with io show ?thesis by (simp add: inputField_def)
qed

subsection \<open>Auxiliary facts: when construction fails and when it succeeds\<close>

lemma createSchema_unresolved:
  assumes "distinct (map tm_name md)" "tm \<in> set md" "f \<in> set (tm_fields tm)"
    "referencedName f = Some n" "n \<notin> tm_name ` set md"
  shows "createSchema config md = Inl TypeError"
proof (cases "commonTypes config")
  case (Cons kv rest)
  then show ?thesis by (simp add: createSchema_def buildTypeSets_def seedTypeSets_Cons)
next
  case Nil
  obtain pass1 where p: "addCustomTypes createInterfaces [] md = Inr pass1"
    using addCustomTypes_total by blast
  from addCustomTypes_lookup [OF p assms(1,2)] obtain ts where
    ts: "map_of pass1 (tm_name tm) = Some ts" "type ts = createType tm"
    by (auto simp: pass1Entry_def)
  from addCustomTypes_keys [OF p] assms(5) have "n \<notin> fst ` set pass1" by simp
  with getFields_unresolved [OF assms(3,4)] ts(2)
  have "getFields pass1 (type ts) = Inl TypeError" by simp
  then have "addInputAndMutation createInterfaces pass1 ts = Inl TypeError"
    by (simp add: addInputAndMutation_def createInputObject_getFields_fails)
  moreover from ts(1) have "(tm_name tm, ts) \<in> set pass1" by (rule map_of_SomeD)
  ultimately have "addInputsAndMutations createInterfaces pass1 = Inl TypeError"
    unfolding addInputsAndMutations_def by (rule mapValues_fails [rotated])
  with p Nil show ?thesis
    by (simp add: createSchema_def buildTypeSets_def seedTypeSets_Nil)
qed

lemma pass2_entry_succeeds:
  assumes p1: "addCustomTypes ifs [] md = Inr pass1"
    and closed: "\<forall>tm\<in>set md. \<forall>field\<in>set (tm_fields tm). \<forall>n.
                   referencedName field = Some n \<longrightarrow> n \<in> tm_name ` set md"
    and entry: "(k, ts) \<in> set pass1"
  shows "\<exists>ts'. addInputAndMutation ifs pass1 ts = Inr ts'"
proof -
  from pass1_types [OF p1 entry] obtain tm where
    tm: "tm \<in> set md" "type ts = createType tm"
    by (auto simp: pass1Entry_def)
  have keys: "fst ` set pass1 = tm_name ` set md"
    using addCustomTypes_keys [OF p1] by simp
  have defined: "\<forall>k ts. (k, ts) \<in> set pass1 \<longrightarrow> type ts \<noteq> Undefined \<and> connection ts \<noteq> Undefined"
    using pass1_types [OF p1] pass1Entry_defined by blast
  have "fieldsThunk (map_of pass1) [] (tm_fields tm) \<noteq> Inl TypeError"
  proof
    assume "fieldsThunk (map_of pass1) [] (tm_fields tm) = Inl TypeError"
    then obtain f n where f: "f \<in> set (tm_fields tm)" "referencedName f = Some n"
      "map_of pass1 n = None"
      by (auto simp: fieldsThunk_fails_iff createField_fails_iff)
    from closed tm(1) f(1,2) have "n \<in> tm_name ` set md" by blast
    with keys f(3) show False by (simp add: map_of_eq_None_iff)
  qed
  with fieldsThunk_cases obtain fieldMap where
    fm: "fieldsThunk (map_of pass1) [] (tm_fields tm) = Inr fieldMap"
    by blast
  have "\<forall>kv\<in>set fieldMap. \<exists>b. keepInputField (Connection ifs) kv = Inr b"
  proof
    fix kv assume kv: "kv \<in> set fieldMap"
    obtain k fd where e: "kv = (k, fd)" by (cases kv)
    from fieldsThunk_entries [OF fm] kv e obtain f where
      "createField (map_of pass1) f = Inr fd" by auto
    from createField_defined_type [OF this defined] have "f_type fd \<noteq> Undefined" .
    from keepInputField_defined [OF this, of "Connection ifs" k] e
    show "\<exists>b. keepInputField (Connection ifs) kv = Inr b" by simp
  qed
  from filterFields_total [OF this] obtain kept where
    "filterFields (Connection ifs) fieldMap = Inr kept" by blast
  with fm tm(2) have "\<exists>io. createInputObject pass1 ts (Some ifs) = Inr io"
    by (simp add: createInputObject_def getFields_createType) (simp add: createType_def)
  moreover from tm(2) have "\<exists>m. createMutation ts ifs = Inr m"
    by (simp add: createMutation_def createType_def)
  ultimately show ?thesis by (auto simp: addInputAndMutation_def)
qed

lemma buildTypeSets_closed:
  assumes "commonTypes config = []"
    and closed: "\<forall>tm\<in>set md. \<forall>field\<in>set (tm_fields tm). \<forall>n.
                   referencedName field = Some n \<longrightarrow> n \<in> tm_name ` set md"
  shows "\<exists>pass1 typeSets.
           addCustomTypes createInterfaces [] md = Inr pass1 \<and>
           addInputsAndMutations createInterfaces pass1 = Inr typeSets \<and>
           buildTypeSets config md = Inr typeSets"
proof -
  obtain pass1 where p1: "addCustomTypes createInterfaces [] md = Inr pass1"
    using addCustomTypes_total by blast
  have "\<forall>(k, ts)\<in>set pass1. \<exists>ts'. addInputAndMutation createInterfaces pass1 ts = Inr ts'"
    using pass2_entry_succeeds [OF p1 closed] by blast
  from mapValues_total [OF this] obtain typeSets where
    p2: "addInputsAndMutations createInterfaces pass1 = Inr typeSets"
    by (auto simp: addInputsAndMutations_def)
  with p1 assms(1) have "buildTypeSets config md = Inr typeSets"
    by (simp add: buildTypeSets_def seedTypeSets_Nil)
  with p1 p2 show ?thesis by blast
qed

lemma reference_field_type:
  assumes p1: "addCustomTypes ifs [] md = Inr pass1"
    and dist: "distinct (map tm_name md)"
    and A: "A \<in> set md" and B: "B \<in> set md"
    and fA: "fieldA \<in> set (tm_fields A)"
    and names: "fm_type fieldA = tm_name B"
    and ref: "fm_type fieldA \<notin> fst ` set PRIMITIVE_TYPE_MAP"
      "\<not> (fm_type fieldA = ''connection'' \<and> fm_target fieldA \<noteq> None)"
    and distA: "distinct (map fm_name (tm_fields A))"
    and gf: "getFields pass1 (createType A) = Inr fieldsA"
  shows "\<exists>fdA. map_of fieldsA (fm_name fieldA) = Some fdA \<and>
           f_type fdA = (if fm_isRequired fieldA = Some True
                         then GraphQLNonNull (createType B) else createType B)"
proof -
  from gf have "fieldsThunk (map_of pass1) [] (tm_fields A) = Inr fieldsA"
    by (simp add: getFields_createType)
  from fieldsThunk_lookup [OF this distA fA] obtain fdA where
    l: "map_of fieldsA (fm_name fieldA) = Some fdA" and
    c: "createField (map_of pass1) fieldA = Inr fdA"
    by blast
  from addCustomTypes_lookup [OF p1 dist B] obtain tsB where
    "map_of pass1 (tm_name B) = Some tsB" "type tsB = createType B"
    by (auto simp: pass1Entry_def)
  moreover from ref(1) have "map_of PRIMITIVE_TYPE_MAP (fm_type fieldA) = None"
    by (simp add: primitive_key_iff)
  ultimately have "createField_branch (map_of pass1) fieldA =
      Inr (createType B, [], ResolveById (fm_type fieldA) (fm_name fieldA))"
    using names by (simp add: branch_other [OF ref(2)])
  with c have "f_type fdA = (if fm_isRequired fieldA = Some True
                         then GraphQLNonNull (createType B) else createType B)"
    by (auto simp: createField_Inr_iff)
  with l show ?thesis by blast
qed

subsection \<open>Auxiliary facts: construction does not look at \<^verbatim>\<open>reverseName\<close>\<close>

lemma createSchema_succeeds_iff:
  assumes "distinct (map tm_name md)"
  shows "(\<exists>schema. createSchema config md = Inr schema) \<longleftrightarrow>
           commonTypes config = [] \<and>
           (\<forall>tm\<in>set md. \<forall>field\<in>set (tm_fields tm). \<forall>n.
              referencedName field = Some n \<longrightarrow> n \<in> tm_name ` set md)"
proof
  assume s: "\<exists>schema. createSchema config md = Inr schema"
  have c: "commonTypes config = []"
  proof (rule ccontr)
    assume "commonTypes config \<noteq> []"
    then obtain kv rest where "commonTypes config = kv # rest" by (cases "commonTypes config") auto
    then have "createSchema config md = Inl TypeError"
      by (simp add: createSchema_def buildTypeSets_def seedTypeSets_Cons)
    with s show False by simp
  qed
  have "\<forall>tm\<in>set md. \<forall>field\<in>set (tm_fields tm). \<forall>n.
              referencedName field = Some n \<longrightarrow> n \<in> tm_name ` set md"
  proof (intro ballI allI impI)
    fix tm field n
    assume h: "tm \<in> set md" "field \<in> set (tm_fields tm)" "referencedName field = Some n"
    show "n \<in> tm_name ` set md"
    proof (rule ccontr)
      assume "n \<notin> tm_name ` set md"
      from createSchema_unresolved [OF assms h this] s show False by simp
    qed
  qed
  with c show "commonTypes config = [] \<and>
           (\<forall>tm\<in>set md. \<forall>field\<in>set (tm_fields tm). \<forall>n.
              referencedName field = Some n \<longrightarrow> n \<in> tm_name ` set md)" by blast
next
  assume "commonTypes config = [] \<and>
           (\<forall>tm\<in>set md. \<forall>field\<in>set (tm_fields tm). \<forall>n.
              referencedName field = Some n \<longrightarrow> n \<in> tm_name ` set md)"
  then have "\<exists>typeSets. buildTypeSets config md = Inr typeSets"
    using buildTypeSets_closed [of config md] by blast
  then show "\<exists>schema. createSchema config md = Inr schema"
    by (simp add: createSchema_Inr_iff)
qed

lemma referencedName_withoutReverseName:
  "referencedName (withoutReverseName field) = referencedName field"
  by (simp add: referencedName_def withoutReverseName_def)

lemma withoutReverseNames_names: "map tm_name (map withoutReverseNames md) = map tm_name md"
  by (simp add: withoutReverseNames_def comp_def)

lemma withoutReverseNames_closed:
  "(\<forall>tm\<in>set (map withoutReverseNames md). \<forall>field\<in>set (tm_fields tm). \<forall>n.
      referencedName field = Some n \<longrightarrow> n \<in> tm_name ` set (map withoutReverseNames md)) \<longleftrightarrow>
   (\<forall>tm\<in>set md. \<forall>field\<in>set (tm_fields tm). \<forall>n.
      referencedName field = Some n \<longrightarrow> n \<in> tm_name ` set md)"
proof -
  have n: "tm_name ` set (map withoutReverseNames md) = tm_name ` set md"
    by (simp add: withoutReverseNames_def image_image)
  show ?thesis
    unfolding n
    by (simp add: withoutReverseNames_def referencedName_withoutReverseName)
qed

lemma reverseNames_not_checked:
  assumes "distinct (map tm_name md)"
  shows "(\<exists>schema. createSchema config (map withoutReverseNames md) = Inr schema) \<longleftrightarrow>
         (\<exists>schema. createSchema config md = Inr schema)"
proof -
  from assms have d: "distinct (map tm_name (map withoutReverseNames md))"
    by (simp only: withoutReverseNames_names)
  show ?thesis
    unfolding createSchema_succeeds_iff [OF d] createSchema_succeeds_iff [OF assms]
      withoutReverseNames_closed ..
qed

lemma target_less_compiles_as_reference:
  assumes "fm_type field = ''connection''" "fm_target field = None"
  shows "createField getTypeSet field =
           (case getTypeSet ''connection'' of
              None \<Rightarrow> Inl TypeError
            | Some ts \<Rightarrow>
                Inr \<lparr>f_name = fm_name field,
                     f_type = (if fm_isRequired field = Some True
                               then GraphQLNonNull (type ts) else type ts),
                     f_args = [],
                     f_resolve = ResolveById ''connection'' (fm_name field),
                     f_isDeprecated = (fm_isDeprecated field = Some True)\<rparr>)"
proof -
  from assms have o: "\<not> (fm_type field = ''connection'' \<and> fm_target field \<noteq> None)" by simp
  have p: "map_of PRIMITIVE_TYPE_MAP ''connection'' = None"
    by (simp add: PRIMITIVE_TYPE_MAP_def)
  show ?thesis
    using assms(1) p by (simp add: createField_def branch_other [OF o] split: option.splits)
qed

subsection \<open>Evaluation of the examples\<close>

lemmas example_defs =
  idField_def nameField_def booksField_def titleField_def authorField_def
  requiredBooksField_def authorMetadata_def bookMetadata_def publisherMetadata_def
  exampleMetadata_def authorWithoutReverseName_def danglingField_def shelfMetadata_def
  employerField_def ownerField_def personMetadata_def companyMetadata_def
  noCommonTypes_def exampleTypeSets_def entryOf_def compiledAuthorField_def
  connectionMetadata_def compiledDanglingField_def withoutReverseName_def
  withoutReverseNames_def

lemmas model_defs =
  createField_def createField_branch_def PRIMITIVE_TYPE_MAP_def createConnectionArguments_def
  createType_def createConnection_def newTypeSet_def createInterfaces_def
  createInputObject_def createMutation_def inputField_def inputFieldType_def
  addInputsAndMutations_def addInputAndMutation_def buildTypeSets_def seedTypeSets_def
  createSchema_def createRootFieldsForTypes_def literalField_def Let_def

lemma book_inputObject:
  "createInputObject exampleTypeSets (entryOf ''Book'') (Some createInterfaces) =
     Inr (GraphQLInputObjectType ''_BookInputObject''
            [(''title'', GraphQLNonNull GraphQLString),
             (''author'', GraphQLNonNull GraphQLString)])"
  by (simp add: example_defs model_defs)

lemma book_fields:
  "getFields exampleTypeSets (type (entryOf ''Book'')) =
     Inr [(''id'', \<lparr>f_name = ''id'', f_type = GraphQLNonNull GraphQLID, f_args = [],
                    f_resolve = NoResolve, f_isDeprecated = False\<rparr>),
          (''title'', \<lparr>f_name = ''title'', f_type = GraphQLNonNull GraphQLString, f_args = [],
                       f_resolve = NoResolve, f_isDeprecated = False\<rparr>),
          (''author'', compiledAuthorField)]"
  by (simp add: example_defs model_defs)

lemma publisher_inputObject:
  "createInputObject exampleTypeSets (entryOf ''Publisher'') (Some createInterfaces) =
     Inr (GraphQLInputObjectType ''_PublisherInputObject''
            [(''books'', GraphQLNonNull GraphQLString)])"
  by (simp add: example_defs model_defs)

lemma author_compiled:
  "createField (map_of exampleTypeSets) authorField = Inr compiledAuthorField"
  by (simp add: example_defs model_defs)

subsection \<open>Seeding the registry with the built-in types\<close>

text \<open>
  C1. Pass 1 is meant to seed the registry with one TypeSet per built-in type that holds
  only the object type and its connection type, with nothing of pass 2 running before
  pass 1 is complete. The seeding callback of lines 35-42 does call \<^verbatim>\<open>createInputObject\<close>
  and \<^verbatim>\<open>createMutation\<close>, and the first of the two calls lacks its second argument. On the
  single built-in type \<open>userType\<close> that call throws, so no TypeSet is seeded and no schema
  is built.
\<close>

theorem seeding_runs_createInputObject:
  "createInputObject [] (newTypeSet userType) None = Inl TypeError \<and>
   seedTypeSets createInterfaces (commonTypes userConfig) = Inl TypeError \<and>
   createSchema userConfig [] = Inl TypeError"
  by (simp add: createInputObject_def seedTypeSets_def seedTypeSet_def createConnection_def
      userConfig_def noCommonTypes_def userType_def newTypeSet_def createSchema_def
      buildTypeSets_def)

text \<open>
  C2. Whenever \<^verbatim>\<open>commonTypes\<close> is not empty, the seeding step throws, and so does
  \<^verbatim>\<open>createSchema\<close>, whatever the custom metadata is; the seeding step completes exactly
  when \<^verbatim>\<open>commonTypes\<close> is empty.
\<close>

theorem createSchema_commonTypes_throws:
  "(commonTypes config \<noteq> [] \<longrightarrow>
      seedTypeSets createInterfaces (commonTypes config) = Inl TypeError \<and>
      createSchema config dbMetadata = Inl TypeError) \<and>
   ((\<exists>seeded. seedTypeSets createInterfaces (commonTypes config) = Inr seeded) \<longleftrightarrow>
      commonTypes config = [])"
proof (cases "commonTypes config")
  case Nil
  then show ?thesis by (simp add: seedTypeSets_Nil)
next
  case (Cons kv rest)
  then show ?thesis
    by (simp add: seedTypeSets_Cons createSchema_def buildTypeSets_def)
qed

theorem createSchema_commonTypes_throws_witness:
  "commonTypes userConfig \<noteq> [] \<and>
   createSchema userConfig [authorMetadata, bookMetadata] = Inl TypeError"
  using createSchema_commonTypes_throws [of userConfig "[authorMetadata, bookMetadata]"]
  by (simp add: userConfig_def)

subsection \<open>The field compiler\<close>

text \<open>
  C7. When \<^verbatim>\<open>createField\<close> returns a field, its type is the type that the branch taken
  (connection, primitive or reference) has determined, wrapped in \<open>GraphQLNonNull\<close> when
  \<^verbatim>\<open>isRequired\<close> is true, and that very type, with no wrapper added, when \<^verbatim>\<open>isRequired\<close>
  is false or absent.
\<close>

theorem createField_required_wrapping:
  assumes "createField getTypeSet field = Inr fd"
  shows "\<exists>ty.
    (if fm_type field = ''connection'' \<and> fm_target field \<noteq> None
     then \<exists>target ts. fm_target field = Some target \<and> getTypeSet target = Some ts \<and>
            ty = connection ts
     else if fm_type field \<in> fst ` set PRIMITIVE_TYPE_MAP
     then map_of PRIMITIVE_TYPE_MAP (fm_type field) = Some ty
     else \<exists>ts. getTypeSet (fm_type field) = Some ts \<and> ty = type ts) \<and>
    (fm_isRequired field = Some True \<longrightarrow> f_type fd = GraphQLNonNull ty) \<and>
    (fm_isRequired field = Some False \<or> fm_isRequired field = None \<longrightarrow> f_type fd = ty)"
proof -
  from assms obtain ty argDef resolve where
    br: "createField_branch getTypeSet field = Inr (ty, argDef, resolve)" and
    fd: "f_type fd = (if fm_isRequired field = Some True then GraphQLNonNull ty else ty)"
    by (auto simp: createField_Inr_iff)
  show ?thesis
  proof (cases "fm_type field = ''connection'' \<and> fm_target field \<noteq> None")
    case True
    then obtain target where t: "fm_target field = Some target" by auto
    with True br have "\<exists>ts. getTypeSet target = Some ts \<and> ty = connection ts"
      by (auto simp: branch_connection split: option.splits)
    with True t fd show ?thesis by auto
  next
    case False
    show ?thesis
    proof (cases "map_of PRIMITIVE_TYPE_MAP (fm_type field)")
      case None
      then have notin: "fm_type field \<notin> fst ` set PRIMITIVE_TYPE_MAP"
        by (simp add: map_of_eq_None_iff)
      from False None br have "\<exists>ts. getTypeSet (fm_type field) = Some ts \<and> ty = type ts"
        by (auto simp: branch_other split: option.splits)
      with False notin fd show ?thesis by auto
    next
      case (Some scalar)
      then have isin: "fm_type field \<in> fst ` set PRIMITIVE_TYPE_MAP"
        by (metis map_of_eq_None_iff option.distinct(1))
      from False Some br have "ty = scalar" by (simp add: branch_other)
      with False isin Some fd show ?thesis by auto
    qed
  qed
qed

theorem createField_required_wrapping_witness:
  "createField (map_of exampleTypeSets) authorField = Inr compiledAuthorField \<and>
   fm_isRequired authorField = Some True \<and>
   f_type compiledAuthorField = GraphQLNonNull (type (entryOf ''Author''))"
proof -
  have h: "createField (map_of exampleTypeSets) authorField = Inr compiledAuthorField"
    by (rule author_compiled)
  from createField_required_wrapping [OF h] h show ?thesis
    by (simp add: example_defs model_defs)
qed



text \<open>
  C3, as the code has it. For a field of kind \<^verbatim>\<open>connection\<close>: when \<^verbatim>\<open>target\<close> is left
  out, the field is compiled by the reference branch as a reference to the type named
  \<^verbatim>\<open>connection\<close> (the object type of that TypeSet, no arguments, the resolver by
  identifier), so that compiling it throws exactly when no such type is registered, and
  \<^verbatim>\<open>createSchema\<close> then throws for metadata with unique names that contains the field.
  \<^verbatim>\<open>reverseName\<close> is not looked at during construction: whatever it is,
  \<^verbatim>\<open>createField\<close> returns the same result up to the resolver, and for metadata with unique
  type names \<^verbatim>\<open>createSchema\<close> returns a schema with every \<^verbatim>\<open>reverseName\<close> left out exactly
  when it returns one for the metadata as given.
\<close>

theorem connection_field_omissions:
  assumes "fm_type field = ''connection''"
  shows "(fm_target field = None \<longrightarrow>
           createField getTypeSet field =
             (case getTypeSet ''connection'' of
                None \<Rightarrow> Inl TypeError
              | Some ts \<Rightarrow>
                  Inr \<lparr>f_name = fm_name field,
                       f_type = (if fm_isRequired field = Some True
                                 then GraphQLNonNull (type ts) else type ts),
                       f_args = [],
                       f_resolve = ResolveById ''connection'' (fm_name field),
                       f_isDeprecated = (fm_isDeprecated field = Some True)\<rparr>) \<and>
           (createField getTypeSet field = Inl TypeError \<longleftrightarrow> getTypeSet ''connection'' = None) \<and>
           (distinct (map tm_name dbMetadata) \<and> tm \<in> set dbMetadata \<and>
              field \<in> set (tm_fields tm) \<and> ''connection'' \<notin> tm_name ` set dbMetadata \<longrightarrow>
            createSchema config dbMetadata = Inl TypeError)) \<and>
         map_sum id (\<lambda>fd. fd\<lparr>f_resolve := NoResolve\<rparr>)
             (createField getTypeSet (field\<lparr>fm_reverseName := reverseName\<rparr>)) =
           map_sum id (\<lambda>fd. fd\<lparr>f_resolve := NoResolve\<rparr>) (createField getTypeSet field) \<and>
         (distinct (map tm_name metadata) \<longrightarrow>
            ((\<exists>schema. createSchema config' (map withoutReverseNames metadata) = Inr schema) \<longleftrightarrow>
             (\<exists>schema. createSchema config' metadata = Inr schema)))"
proof -
  have r: "referencedName field = Some ''connection''" if "fm_target field = None"
    using that assms by (simp add: referencedName_def PRIMITIVE_TYPE_MAP_def)
  have a: "createField getTypeSet field = Inl TypeError \<longleftrightarrow> getTypeSet ''connection'' = None"
    if "fm_target field = None"
    using r [OF that] by (simp add: createField_fails_iff)
  have a': "createField getTypeSet field =
             (case getTypeSet ''connection'' of
                None \<Rightarrow> Inl TypeError
              | Some ts \<Rightarrow>
                  Inr \<lparr>f_name = fm_name field,
                       f_type = (if fm_isRequired field = Some True
                                 then GraphQLNonNull (type ts) else type ts),
                       f_args = [],
                       f_resolve = ResolveById ''connection'' (fm_name field),
                       f_isDeprecated = (fm_isDeprecated field = Some True)\<rparr>)"
    if "fm_target field = None"
    by (rule target_less_compiles_as_reference [OF assms that])
  have b: "createSchema config dbMetadata = Inl TypeError"
    if "fm_target field = None" "distinct (map tm_name dbMetadata)" "tm \<in> set dbMetadata"
       "field \<in> set (tm_fields tm)" "''connection'' \<notin> tm_name ` set dbMetadata"
    using createSchema_unresolved [OF that(2,3,4) r [OF that(1)] that(5)] .
  have c: "map_sum id (\<lambda>fd. fd\<lparr>f_resolve := NoResolve\<rparr>)
             (createField getTypeSet (field\<lparr>fm_reverseName := reverseName\<rparr>)) =
           map_sum id (\<lambda>fd. fd\<lparr>f_resolve := NoResolve\<rparr>) (createField getTypeSet field)"
    by (simp add: createField_def createField_branch_def Let_def split: option.splits)
  have d: "(\<exists>schema. createSchema config' (map withoutReverseNames metadata) = Inr schema) \<longleftrightarrow>
             (\<exists>schema. createSchema config' metadata = Inr schema)"
    if "distinct (map tm_name metadata)"
    by (rule reverseNames_not_checked [OF that])
  show ?thesis
  proof (intro conjI impI)
    assume t: "fm_target field = None"
    show "createField getTypeSet field =
             (case getTypeSet ''connection'' of
                None \<Rightarrow> Inl TypeError
              | Some ts \<Rightarrow>
                  Inr \<lparr>f_name = fm_name field,
                       f_type = (if fm_isRequired field = Some True
                                 then GraphQLNonNull (type ts) else type ts),
                       f_args = [],
                       f_resolve = ResolveById ''connection'' (fm_name field),
                       f_isDeprecated = (fm_isDeprecated field = Some True)\<rparr>)"
      by (rule a' [OF t])
    show "createField getTypeSet field = Inl TypeError \<longleftrightarrow> getTypeSet ''connection'' = None"
      by (rule a [OF t])
    assume "distinct (map tm_name dbMetadata) \<and> tm \<in> set dbMetadata \<and>
              field \<in> set (tm_fields tm) \<and> ''connection'' \<notin> tm_name ` set dbMetadata"
    with b [OF t] show "createSchema config dbMetadata = Inl TypeError" by blast
  next
    show "map_sum id (\<lambda>fd. fd\<lparr>f_resolve := NoResolve\<rparr>)
             (createField getTypeSet (field\<lparr>fm_reverseName := reverseName\<rparr>)) =
           map_sum id (\<lambda>fd. fd\<lparr>f_resolve := NoResolve\<rparr>) (createField getTypeSet field)"
      by (rule c)
  next
    assume "distinct (map tm_name metadata)"
    then show "(\<exists>schema. createSchema config' (map withoutReverseNames metadata) = Inr schema) \<longleftrightarrow>
             (\<exists>schema. createSchema config' metadata = Inr schema)"
      by (rule d)
  qed
qed

theorem connection_field_omissions_witness:
  "fm_type danglingField = ''connection'' \<and> fm_target danglingField = None \<and>
   fm_reverseName danglingField = None \<and>
   createField (map_of []) danglingField = Inl TypeError \<and>
   createSchema noCommonTypes [shelfMetadata] = Inl TypeError \<and>
   createField (map_of [(''connection'', newTypeSet (createType connectionMetadata))])
     danglingField = Inr compiledDanglingField \<and>
   map_sum id (\<lambda>fd. fd\<lparr>f_resolve := NoResolve\<rparr>)
     (createField (map_of exampleTypeSets) (booksField\<lparr>fm_reverseName := None\<rparr>)) =
   map_sum id (\<lambda>fd. fd\<lparr>f_resolve := NoResolve\<rparr>)
     (createField (map_of exampleTypeSets) booksField) \<and>
   distinct (map tm_name [authorMetadata, bookMetadata]) \<and>
   (\<exists>schema. createSchema noCommonTypes
      (map withoutReverseNames [authorMetadata, bookMetadata]) = Inr schema)"
proof -
  have h: "fm_type danglingField = ''connection''" "fm_target danglingField = None"
    "fm_reverseName danglingField = None"
    by (simp_all add: danglingField_def)
  have d: "distinct (map tm_name [shelfMetadata]) \<and> shelfMetadata \<in> set [shelfMetadata] \<and>
      danglingField \<in> set (tm_fields shelfMetadata) \<and>
      ''connection'' \<notin> tm_name ` set [shelfMetadata]"
    by (simp add: shelfMetadata_def)
  have b: "fm_type booksField = ''connection''" by (simp add: booksField_def)
  have e: "distinct (map tm_name [authorMetadata, bookMetadata])"
    by (simp add: authorMetadata_def bookMetadata_def)
  have s: "\<exists>schema. createSchema noCommonTypes [authorMetadata, bookMetadata] = Inr schema"
    by (simp add: example_defs model_defs)
  from connection_field_omissions [OF h(1), of "map_of []" "[shelfMetadata]" shelfMetadata
      noCommonTypes None "[authorMetadata, bookMetadata]" noCommonTypes] h d e s
  have 1: "createField (map_of []) danglingField = Inl TypeError \<and>
      createSchema noCommonTypes [shelfMetadata] = Inl TypeError \<and>
      (\<exists>schema. createSchema noCommonTypes
         (map withoutReverseNames [authorMetadata, bookMetadata]) = Inr schema)"
    by simp
  from connection_field_omissions
    [OF h(1), of "map_of [(''connection'', newTypeSet (createType connectionMetadata))]"] h
  have 2: "createField (map_of [(''connection'', newTypeSet (createType connectionMetadata))])
     danglingField = Inr compiledDanglingField"
    by (simp add: danglingField_def compiledDanglingField_def newTypeSet_def)
  from connection_field_omissions [OF b, of "map_of exampleTypeSets" "[]" shelfMetadata
      noCommonTypes None]
  have 3: "map_sum id (\<lambda>fd. fd\<lparr>f_resolve := NoResolve\<rparr>)
     (createField (map_of exampleTypeSets) (booksField\<lparr>fm_reverseName := None\<rparr>)) =
   map_sum id (\<lambda>fd. fd\<lparr>f_resolve := NoResolve\<rparr>)
     (createField (map_of exampleTypeSets) booksField)"
    by simp
  from h e 1 2 3 show ?thesis by simp
qed

text \<open>
  Two inputs on which \<^verbatim>\<open>createSchema\<close> returns a schema: the scenario of the
  specification with the \<^verbatim>\<open>reverseName\<close> of \<^verbatim>\<open>Author.books\<close> left out, and a type with a
  connection field without \<^verbatim>\<open>target\<close> next to a type named \<^verbatim>\<open>connection\<close>.
\<close>

theorem connection_omissions_counterexample:
  "fm_type (booksField\<lparr>fm_reverseName := None\<rparr>) = ''connection'' \<and>
   fm_target (booksField\<lparr>fm_reverseName := None\<rparr>) = Some ''Book'' \<and>
   fm_reverseName (booksField\<lparr>fm_reverseName := None\<rparr>) = None \<and>
   tm_fields authorWithoutReverseName =
     [idField, nameField, booksField\<lparr>fm_reverseName := None\<rparr>] \<and>
   createSchema noCommonTypes [authorWithoutReverseName, bookMetadata] =
     Inr \<lparr>schema_query = GraphQLObjectType ''_Query'' [] (FieldsObject []),
          schema_mutation = GraphQLObjectType ''_Mutation'' [] (FieldsObject [])\<rparr> \<and>
   fm_type danglingField = ''connection'' \<and>
   fm_target danglingField = None \<and>
   fm_reverseName danglingField = None \<and>
   tm_fields shelfMetadata = [idField, danglingField] \<and>
   createSchema noCommonTypes [connectionMetadata, shelfMetadata] =
     Inr \<lparr>schema_query = GraphQLObjectType ''_Query'' [] (FieldsObject []),
          schema_mutation = GraphQLObjectType ''_Mutation'' [] (FieldsObject [])\<rparr>"
  by (simp add: example_defs model_defs AList.merge_def)

subsection \<open>Input objects\<close>

text \<open>
  C4, as the code has it. For a field that the filter of \<^verbatim>\<open>createInputObject\<close> keeps and
  whose type, after removing one outer list or non-null wrapper if there is one, is neither
  a scalar nor an input object, the input object has the string type in a wrapper of the
  same class as the outer wrapper: a list of strings for a list, a non-null string for a
  non-null type, the plain string type when there is no wrapper.
\<close>

theorem inputObject_substitutes_string:
  assumes "createInputObject typeSets typeSet (Some interfaces) = Inr io"
    and "getFields typeSets (type typeSet) = Inr fieldMap"
    and "(name, field) \<in> set fieldMap"
    and "keepInputField (Connection interfaces) (name, field) = Inr True"
  shows "\<exists>n obj. io = GraphQLInputObjectType n obj \<and>
           (\<forall>t. f_type field = GraphQLList t \<and> \<not> isInputOrScalar t \<longrightarrow>
              (name, GraphQLList GraphQLString) \<in> set obj) \<and>
           (\<forall>t. f_type field = GraphQLNonNull t \<and> \<not> isInputOrScalar t \<longrightarrow>
              (name, GraphQLNonNull GraphQLString) \<in> set obj) \<and>
           ((\<forall>t. f_type field \<noteq> GraphQLList t \<and> f_type field \<noteq> GraphQLNonNull t) \<and>
              \<not> isInputOrScalar (f_type field) \<longrightarrow>
              (name, GraphQLString) \<in> set obj)"
proof -
  from kept_field_in_inputObject [OF assms] obtain n obj where
    io: "io = GraphQLInputObjectType n obj" and
    m: "(name, inputFieldType (f_type field)) \<in> set obj"
    by blast
  have "\<forall>t. f_type field = GraphQLList t \<and> \<not> isInputOrScalar t \<longrightarrow>
              (name, GraphQLList GraphQLString) \<in> set obj"
    using m by (auto simp: inputFieldType_List)
  moreover have "\<forall>t. f_type field = GraphQLNonNull t \<and> \<not> isInputOrScalar t \<longrightarrow>
              (name, GraphQLNonNull GraphQLString) \<in> set obj"
    using m by (auto simp: inputFieldType_NonNull)
  moreover have "(\<forall>t. f_type field \<noteq> GraphQLList t \<and> f_type field \<noteq> GraphQLNonNull t) \<and>
              \<not> isInputOrScalar (f_type field) \<longrightarrow> (name, GraphQLString) \<in> set obj"
    using m by (auto simp: inputFieldType_bare)
  ultimately show ?thesis using io by blast
qed

theorem inputObject_substitutes_string_witness:
  "createInputObject exampleTypeSets (entryOf ''Book'') (Some createInterfaces) =
     Inr (GraphQLInputObjectType ''_BookInputObject''
            [(''title'', GraphQLNonNull GraphQLString),
             (''author'', GraphQLNonNull GraphQLString)]) \<and>
   f_type compiledAuthorField = GraphQLNonNull (createType authorMetadata) \<and>
   \<not> isInputOrScalar (createType authorMetadata) \<and>
   keepInputField (Connection createInterfaces) (''author'', compiledAuthorField) = Inr True \<and>
   (''author'', GraphQLNonNull GraphQLString) \<in>
     set [(''title'', GraphQLNonNull GraphQLString), (''author'', GraphQLNonNull GraphQLString)]"
proof -
  have m: "(''author'', compiledAuthorField) \<in>
      set [(''id'', \<lparr>f_name = ''id'', f_type = GraphQLNonNull GraphQLID, f_args = [],
                    f_resolve = NoResolve, f_isDeprecated = False\<rparr>),
          (''title'', \<lparr>f_name = ''title'', f_type = GraphQLNonNull GraphQLString, f_args = [],
                       f_resolve = NoResolve, f_isDeprecated = False\<rparr>),
          (''author'', compiledAuthorField)]"
    by simp
  have k: "keepInputField (Connection createInterfaces) (''author'', compiledAuthorField) = Inr True"
    by (simp add: compiledAuthorField_def)
  have t: "f_type compiledAuthorField = GraphQLNonNull (createType authorMetadata) \<and>
      \<not> isInputOrScalar (createType authorMetadata)"
    by (simp add: compiledAuthorField_def createType_def)
  from inputObject_substitutes_string [OF book_inputObject book_fields m k] t
  have "(''author'', GraphQLNonNull GraphQLString) \<in>
     set [(''title'', GraphQLNonNull GraphQLString), (''author'', GraphQLNonNull GraphQLString)]"
    by auto
  with book_inputObject t k show ?thesis by simp
qed

text \<open>
  The required reference \<^verbatim>\<open>Book.author\<close> of the scenario: its type is non-null of an
  object type, and the input object has it as non-null string, not as the plain string.
\<close>

theorem inputObject_keeps_nonNull_counterexample:
  "f_type compiledAuthorField = GraphQLNonNull (createType authorMetadata) \<and>
   \<not> isInputOrScalar (createType authorMetadata) \<and>
   getFields exampleTypeSets (type (entryOf ''Book'')) =
     Inr [(''id'', \<lparr>f_name = ''id'', f_type = GraphQLNonNull GraphQLID, f_args = [],
                    f_resolve = NoResolve, f_isDeprecated = False\<rparr>),
          (''title'', \<lparr>f_name = ''title'', f_type = GraphQLNonNull GraphQLString, f_args = [],
                       f_resolve = NoResolve, f_isDeprecated = False\<rparr>),
          (''author'', compiledAuthorField)] \<and>
   createInputObject exampleTypeSets (entryOf ''Book'') (Some createInterfaces) =
     Inr (GraphQLInputObjectType ''_BookInputObject''
            [(''title'', GraphQLNonNull GraphQLString),
             (''author'', GraphQLNonNull GraphQLString)]) \<and>
   GraphQLNonNull GraphQLString \<noteq> GraphQLString"
  by (simp add: book_inputObject book_fields) (simp add: compiledAuthorField_def createType_def)

text \<open>
  C6. In every registry that \<^verbatim>\<open>createSchema\<close> builds, for every entry whose object type
  comes from a descriptor without a field of kind \<^verbatim>\<open>connection\<close>, the set of field names
  of the input object is the set of field names of the object type without \<^verbatim>\<open>id\<close>.
\<close>

theorem inputObject_omits_only_id:
  assumes built: "buildTypeSets config dbMetadata = Inr typeSets"
    and entry: "(name, typeSet) \<in> set typeSets"
    and ty: "type typeSet = createType tm"
    and nc: "\<forall>field\<in>set (tm_fields tm). fm_type field \<noteq> ''connection''"
  shows "\<exists>n obj fieldMap.
           inputObject typeSet = GraphQLInputObjectType n obj \<and>
           getFields typeSets (type typeSet) = Inr fieldMap \<and>
           fst ` set obj = fst ` set fieldMap - {''id''}"
proof -
  let ?ifs = createInterfaces
  from buildTypeSets_Inr [OF built] obtain pass1 where
    p1: "addCustomTypes ?ifs [] dbMetadata = Inr pass1" and
    p2: "addInputsAndMutations ?ifs pass1 = Inr typeSets"
    by blast
  from p2 have m: "mapValues (addInputAndMutation ?ifs pass1) pass1 = Inr typeSets"
    by (simp add: addInputsAndMutations_def)
  from mapValues_entries [OF m entry] obtain ts1 where
    e1: "(name, ts1) \<in> set pass1" and a: "addInputAndMutation ?ifs pass1 ts1 = Inr typeSet"
    by blast
  from addInputAndMutation_Inr [OF a] have
    t1: "type ts1 = createType tm" and
    io: "createInputObject pass1 ts1 (Some ?ifs) = Inr (inputObject typeSet)"
    using ty by simp_all
  from createInputObject_Inr [OF io] t1 obtain n fieldMap kept where
    gf: "getFields pass1 (createType tm) = Inr fieldMap" and
    ff: "filterFields (Connection ?ifs) fieldMap = Inr kept" and
    res: "inputObject typeSet = GraphQLInputObjectType (''_'' @ n @ ''InputObject'') (map inputField kept)"
    by auto
  have regtypes: "\<forall>k ts. (k, ts) \<in> set pass1 \<longrightarrow> (\<exists>tm. type ts = createType tm)"
    using pass1_types [OF p1] by (auto simp: pass1Entry_def)
  have keep: "keepInputField (Connection ?ifs) kv = Inr (fst kv \<noteq> ''id'')"
    if "kv \<in> set fieldMap" for kv
  proof -
    obtain k fd where kv: "kv = (k, fd)" by (cases kv)
    from gf have "fieldsThunk (map_of pass1) [] (tm_fields tm) = Inr fieldMap"
      by (simp add: getFields_createType)
    from fieldsThunk_entries [OF this] that kv obtain f where
      f: "f \<in> set (tm_fields tm)" "createField (map_of pass1) f = Inr fd"
      by auto
    from f(1) nc have "fm_type f \<noteq> ''connection''" by blast
    from createField_plain_type [OF f(2) this regtypes] obtain ty where
      "f_type fd = ty \<or> f_type fd = GraphQLNonNull ty"
      "(\<exists>n. ty = GraphQLScalarType n) \<or> (\<exists>n fs. ty = GraphQLObjectType n [] fs)"
      by blast
    from keepInputField_plain [OF this] kv show ?thesis by simp
  qed
  from filterFields_Inr [OF ff]
  have "kept = filter (\<lambda>kv. keepInputField (Connection ?ifs) kv = Inr True) fieldMap" .
  also have "\<dots> = filter (\<lambda>kv. fst kv \<noteq> ''id'') fieldMap"
    by (rule filter_cong) (simp_all add: keep)
  finally have "map fst (map inputField kept) = filter (\<lambda>k. k \<noteq> ''id'') (map fst fieldMap)"
    by (simp add: inputField_def filter_map comp_def)
  then have "set (map fst (map inputField kept)) =
      set (filter (\<lambda>k. k \<noteq> ''id'') (map fst fieldMap))"
    by (rule arg_cong)
  then have "fst ` set (map inputField kept) = fst ` set fieldMap - {''id''}"
    by (simp only: set_map set_filter) auto
  moreover from gf have "getFields typeSets (type typeSet) = Inr fieldMap"
    by (simp add: getFields_after_pass2 [OF p2] ty)
  ultimately show ?thesis using res by blast
qed

theorem inputObject_omits_only_id_witness:
  "\<exists>typeSets typeSet.
     buildTypeSets noCommonTypes exampleMetadata = Inr typeSets \<and>
     (''Book'', typeSet) \<in> set typeSets \<and>
     type typeSet = createType bookMetadata \<and>
     (\<exists>n obj fieldMap.
        inputObject typeSet = GraphQLInputObjectType n obj \<and>
        getFields typeSets (type typeSet) = Inr fieldMap \<and>
        fst ` set obj = fst ` set fieldMap - {''id''})"
proof -
  have "\<exists>typeSets typeSet.
     buildTypeSets noCommonTypes exampleMetadata = Inr typeSets \<and>
     (''Book'', typeSet) \<in> set typeSets \<and>
     type typeSet = createType bookMetadata"
    by (simp add: example_defs model_defs)
  then obtain typeSets typeSet where
    h: "buildTypeSets noCommonTypes exampleMetadata = Inr typeSets"
      "(''Book'', typeSet) \<in> set typeSets"
      "type typeSet = createType bookMetadata"
    by blast
  have nc: "\<forall>field\<in>set (tm_fields bookMetadata). fm_type field \<noteq> ''connection''"
    by (simp add: bookMetadata_def idField_def titleField_def authorField_def)
  from inputObject_omits_only_id [OF h nc]
  have "\<exists>n obj fieldMap.
        inputObject typeSet = GraphQLInputObjectType n obj \<and>
        getFields typeSets (type typeSet) = Inr fieldMap \<and>
        fst ` set obj = fst ` set fieldMap - {''id''}" .
  with h show ?thesis by (intro exI [of _ typeSets] exI [of _ typeSet] conjI)
qed

text \<open>
  C10. A required field of kind \<^verbatim>\<open>connection\<close>, not named \<^verbatim>\<open>id\<close>, whose target has a
  connection type made by \<^verbatim>\<open>createConnection\<close>: its compiled type is non-null of the
  connection type, the filter of \<^verbatim>\<open>createInputObject\<close> keeps it, and the input object has
  it with type non-null string. The same field with the bare connection type is dropped.
\<close>

theorem required_connection_field_kept:
  assumes conn: "fm_type field = ''connection''" "fm_target field = Some target"
    and req: "fm_isRequired field = Some True"
    and notid: "fm_name field \<noteq> ''id''"
    and ty: "type typeSet = createType tm"
    and fld: "field \<in> set (tm_fields tm)" "distinct (map fm_name (tm_fields tm))"
    and tgt: "map_of typeSets target = Some targetSet"
    and cc: "createConnection ts0 interfaces = Inr (connection targetSet)"
    and io: "createInputObject typeSets typeSet (Some interfaces) = Inr io"
  shows "\<exists>fieldMap fd n obj.
           getFields typeSets (type typeSet) = Inr fieldMap \<and>
           map_of fieldMap (fm_name field) = Some fd \<and>
           f_type fd = GraphQLNonNull (connection targetSet) \<and>
           keepInputField (Connection interfaces) (fm_name field, fd) = Inr True \<and>
           keepInputField (Connection interfaces)
             (fm_name field, fd\<lparr>f_type := connection targetSet\<rparr>) = Inr False \<and>
           io = GraphQLInputObjectType n obj \<and>
           map_of obj (fm_name field) = Some (GraphQLNonNull GraphQLString)"
proof -
  from createInputObject_Inr [OF io] ty obtain n fieldMap kept where
    gf: "getFields typeSets (createType tm) = Inr fieldMap" and
    ff: "filterFields (Connection interfaces) fieldMap = Inr kept" and
    res: "io = GraphQLInputObjectType (''_'' @ n @ ''InputObject'') (map inputField kept)"
    by auto
  from gf have th: "fieldsThunk (map_of typeSets) [] (tm_fields tm) = Inr fieldMap"
    by (simp add: getFields_createType)
  from fieldsThunk_lookup [OF th fld(2,1)] obtain fd where
    l: "map_of fieldMap (fm_name field) = Some fd" and
    c: "createField (map_of typeSets) field = Inr fd"
    by blast
  from conn tgt have "createField_branch (map_of typeSets) field =
      Inr (connection targetSet, createConnectionArguments,
           ResolveConnection target (fm_reverseName field))"
    by (simp add: branch_connection)
  with c req have t: "f_type fd = GraphQLNonNull (connection targetSet)"
    by (auto simp: createField_Inr_iff)
  with notid have k: "keepInputField (Connection interfaces) (fm_name field, fd) = Inr True"
    by simp
  from createConnection_shape [OF cc] notid
  have k': "keepInputField (Connection interfaces)
             (fm_name field, fd\<lparr>f_type := connection targetSet\<rparr>) = Inr False"
    by auto
  from createConnection_shape [OF cc] have "\<not> isInputOrScalar (connection targetSet)" by auto
  with t have i: "inputFieldType (f_type fd) = GraphQLNonNull GraphQLString"
    by (simp add: inputFieldType_NonNull)
  from th have d: "distinct (map fst fieldMap)" by (rule fieldsThunk_distinct) simp
  have "map inputField kept =
      map (\<lambda>kv. (fst kv, inputFieldType (f_type (snd kv))))
        (filter (\<lambda>kv. keepInputField (Connection interfaces) kv = Inr True) fieldMap)"
    using filterFields_Inr [OF ff] by (simp add: inputField_def [abs_def])
  moreover from map_of_filter_map [OF d l, of "\<lambda>kv. keepInputField (Connection interfaces) kv = Inr True" "\<lambda>fd. inputFieldType (f_type fd)"] k
  have "map_of (map (\<lambda>kv. (fst kv, inputFieldType (f_type (snd kv))))
        (filter (\<lambda>kv. keepInputField (Connection interfaces) kv = Inr True) fieldMap))
        (fm_name field) = Some (inputFieldType (f_type fd))"
    by simp
  ultimately have "map_of (map inputField kept) (fm_name field) = Some (GraphQLNonNull GraphQLString)"
    using i by simp
  with gf ty l t k k' res show ?thesis by auto
qed

theorem required_connection_field_kept_witness:
  "fm_type requiredBooksField = ''connection'' \<and>
   fm_isRequired requiredBooksField = Some True \<and>
   createInputObject exampleTypeSets (entryOf ''Publisher'') (Some createInterfaces) =
     Inr (GraphQLInputObjectType ''_PublisherInputObject''
            [(''books'', GraphQLNonNull GraphQLString)]) \<and>
   (\<exists>fieldMap fd.
      getFields exampleTypeSets (type (entryOf ''Publisher'')) = Inr fieldMap \<and>
      map_of fieldMap ''books'' = Some fd \<and>
      f_type fd = GraphQLNonNull (connection (entryOf ''Book'')) \<and>
      keepInputField (Connection createInterfaces) (''books'', fd) = Inr True \<and>
      keepInputField (Connection createInterfaces)
        (''books'', fd\<lparr>f_type := connection (entryOf ''Book'')\<rparr>) = Inr False)"
proof -
  have c: "fm_type requiredBooksField = ''connection''"
    "fm_target requiredBooksField = Some ''Book''"
    "fm_isRequired requiredBooksField = Some True"
    "fm_name requiredBooksField \<noteq> ''id''"
    by (simp_all add: requiredBooksField_def)
  have ty: "type (entryOf ''Publisher'') = createType publisherMetadata"
    by (simp add: example_defs model_defs)
  have fld: "requiredBooksField \<in> set (tm_fields publisherMetadata)"
    "distinct (map fm_name (tm_fields publisherMetadata))"
    by (simp_all add: publisherMetadata_def idField_def requiredBooksField_def)
  have tgt: "map_of exampleTypeSets ''Book'' = Some (entryOf ''Book'')"
    by (simp add: example_defs model_defs)
  have cc: "createConnection (newTypeSet (createType bookMetadata)) createInterfaces =
      Inr (connection (entryOf ''Book''))"
    by (simp add: example_defs model_defs)
  from required_connection_field_kept [OF c ty fld tgt cc publisher_inputObject]
  have "\<exists>fieldMap fd.
      getFields exampleTypeSets (type (entryOf ''Publisher'')) = Inr fieldMap \<and>
      map_of fieldMap ''books'' = Some fd \<and>
      f_type fd = GraphQLNonNull (connection (entryOf ''Book'')) \<and>
      keepInputField (Connection createInterfaces) (''books'', fd) = Inr True \<and>
      keepInputField (Connection createInterfaces)
        (''books'', fd\<lparr>f_type := connection (entryOf ''Book'')\<rparr>) = Inr False"
    by (simp add: requiredBooksField_def)
  with c publisher_inputObject show ?thesis by simp
qed

subsection \<open>Construction as a whole\<close>

text \<open>
  C8. Let the metadata have unique type names. If a descriptor has a field whose type string
  is not \<^verbatim>\<open>connection\<close>, not a primitive kind and not a key of the registry, then
  evaluating the field map of its object type throws in every registry that lacks the key,
  and \<^verbatim>\<open>createSchema\<close> throws: it returns no schema and no registry.
\<close>

theorem unregistered_type_aborts:
  assumes "distinct (map tm_name dbMetadata)"
    and "tm \<in> set dbMetadata" and "field \<in> set (tm_fields tm)"
    and "fm_type field \<noteq> ''connection''"
    and "fm_type field \<notin> fst ` set PRIMITIVE_TYPE_MAP"
    and "fm_type field \<notin> fst ` set (commonTypes config) \<union> tm_name ` set dbMetadata"
  shows "createSchema config dbMetadata = Inl TypeError \<and>
         buildTypeSets config dbMetadata = Inl TypeError \<and>
         (\<forall>typeSets. fm_type field \<notin> fst ` set typeSets \<longrightarrow>
            getFields typeSets (createType tm) = Inl TypeError)"
proof -
  from assms(4,5) have r: "referencedName field = Some (fm_type field)"
    by (simp add: referencedName_def)
  from assms(6) have n: "fm_type field \<notin> tm_name ` set dbMetadata" by simp
  have "createSchema config dbMetadata = Inl TypeError"
    by (rule createSchema_unresolved [OF assms(1,2,3) r n])
  moreover from this have "buildTypeSets config dbMetadata = Inl TypeError"
    by (simp add: createSchema_Inl_iff)
  moreover have "\<forall>typeSets. fm_type field \<notin> fst ` set typeSets \<longrightarrow>
            getFields typeSets (createType tm) = Inl TypeError"
    using getFields_unresolved [OF assms(3) r] by blast
  ultimately show ?thesis by blast
qed

theorem unregistered_type_aborts_witness:
  "distinct (map tm_name [bookMetadata]) \<and> authorField \<in> set (tm_fields bookMetadata) \<and>
   fm_type authorField \<noteq> ''connection'' \<and>
   fm_type authorField \<notin> fst ` set PRIMITIVE_TYPE_MAP \<and>
   fm_type authorField \<notin> fst ` set (commonTypes noCommonTypes) \<union> tm_name ` set [bookMetadata] \<and>
   createSchema noCommonTypes [bookMetadata] = Inl TypeError \<and>
   getFields [] (createType bookMetadata) = Inl TypeError"
proof -
  have h: "distinct (map tm_name [bookMetadata])" "bookMetadata \<in> set [bookMetadata]"
    "authorField \<in> set (tm_fields bookMetadata)" "fm_type authorField \<noteq> ''connection''"
    "fm_type authorField \<notin> fst ` set PRIMITIVE_TYPE_MAP"
    "fm_type authorField \<notin> fst ` set (commonTypes noCommonTypes) \<union> tm_name ` set [bookMetadata]"
    by (simp_all add: bookMetadata_def authorField_def PRIMITIVE_TYPE_MAP_def noCommonTypes_def)
  from unregistered_type_aborts [OF h] h show ?thesis by simp
qed

text \<open>
  C5. Let the metadata have unique type names, none of them empty, let every name that
  its fields look up be the name of a descriptor, and let there be no built-in types. If a field of \<open>A\<close> refers
  to \<open>B\<close> and a field of \<open>B\<close> refers to \<open>A\<close> (both through the reference branch,
  the field names of each type being unique), then \<^verbatim>\<open>createSchema\<close> returns a schema, and
  in the registry it has built the field map of \<open>A\<close> gives the field the object type of
  \<open>B\<close>, the field map of \<open>B\<close> the object type of \<open>A\<close> (under
  \<open>GraphQLNonNull\<close> for a required field).
\<close>

theorem circular_references_resolve:
  assumes noCommon: "commonTypes config = []"
    and dist: "distinct (map tm_name dbMetadata)"
    and named: "\<forall>tm\<in>set dbMetadata. tm_name tm \<noteq> []"
    and closed: "\<forall>tm\<in>set dbMetadata. \<forall>field\<in>set (tm_fields tm). \<forall>n.
                   referencedName field = Some n \<longrightarrow> n \<in> tm_name ` set dbMetadata"
    and A: "A \<in> set dbMetadata" and B: "B \<in> set dbMetadata"
    and fA: "fieldA \<in> set (tm_fields A)" "fm_type fieldA = tm_name B"
      "fm_type fieldA \<notin> fst ` set PRIMITIVE_TYPE_MAP"
      "\<not> (fm_type fieldA = ''connection'' \<and> fm_target fieldA \<noteq> None)"
    and fB: "fieldB \<in> set (tm_fields B)" "fm_type fieldB = tm_name A"
      "fm_type fieldB \<notin> fst ` set PRIMITIVE_TYPE_MAP"
      "\<not> (fm_type fieldB = ''connection'' \<and> fm_target fieldB \<noteq> None)"
    and distA: "distinct (map fm_name (tm_fields A))"
    and distB: "distinct (map fm_name (tm_fields B))"
  shows "\<exists>typeSets schema tsA tsB fieldsA fieldsB fdA fdB.
           buildTypeSets config dbMetadata = Inr typeSets \<and>
           createSchema config dbMetadata = Inr schema \<and>
           map_of typeSets (tm_name A) = Some tsA \<and> type tsA = createType A \<and>
           map_of typeSets (tm_name B) = Some tsB \<and> type tsB = createType B \<and>
           getFields typeSets (type tsA) = Inr fieldsA \<and>
           map_of fieldsA (fm_name fieldA) = Some fdA \<and>
           f_type fdA = (if fm_isRequired fieldA = Some True
                         then GraphQLNonNull (type tsB) else type tsB) \<and>
           getFields typeSets (type tsB) = Inr fieldsB \<and>
           map_of fieldsB (fm_name fieldB) = Some fdB \<and>
           f_type fdB = (if fm_isRequired fieldB = Some True
                         then GraphQLNonNull (type tsA) else type tsA)"
proof -
  let ?ifs = createInterfaces
  from buildTypeSets_closed [OF noCommon closed] obtain pass1 typeSets where
    p1: "addCustomTypes ?ifs [] dbMetadata = Inr pass1" and
    p2: "addInputsAndMutations ?ifs pass1 = Inr typeSets" and
    b: "buildTypeSets config dbMetadata = Inr typeSets"
    by blast
  from b obtain schema where s: "createSchema config dbMetadata = Inr schema"
    using createSchema_Inr_iff by blast
  have final: "\<exists>ts ts1 io. map_of typeSets (tm_name tm) = Some ts \<and> type ts = createType tm \<and>
                 createInputObject pass1 ts1 (Some ?ifs) = Inr io \<and>
                 type ts1 = createType tm"
    if "tm \<in> set dbMetadata" for tm
  proof -
    from addCustomTypes_lookup [OF p1 dist that] obtain ts1 where
      l1: "map_of pass1 (tm_name tm) = Some ts1" and t1: "type ts1 = createType tm"
      by (auto simp: pass1Entry_def)
    from p2 have m: "mapValues (addInputAndMutation ?ifs pass1) pass1 = Inr typeSets"
      by (simp add: addInputsAndMutations_def)
    from mapValues_lookup [OF m, of "tm_name tm"] l1 obtain ts where
      "addInputAndMutation ?ifs pass1 ts1 = Inr ts" "map_of typeSets (tm_name tm) = Some ts"
      by auto
    with addInputAndMutation_Inr [of ?ifs pass1 ts1 ts] t1 show ?thesis
      by auto
  qed
  have fields: "\<exists>fieldMap. getFields pass1 (createType tm) = Inr fieldMap"
    if "tm \<in> set dbMetadata" for tm
  proof -
    from final [OF that] obtain ts1 io where
      "createInputObject pass1 ts1 (Some ?ifs) = Inr io" "type ts1 = createType tm"
      by auto
    with createInputObject_Inr [of pass1 ts1 ?ifs io] show ?thesis by auto
  qed
  from final [OF A] obtain tsA where
    tsA: "map_of typeSets (tm_name A) = Some tsA" "type tsA = createType A" by blast
  from final [OF B] obtain tsB where
    tsB: "map_of typeSets (tm_name B) = Some tsB" "type tsB = createType B" by blast
  from fields [OF A] obtain fieldsA where gA: "getFields pass1 (createType A) = Inr fieldsA"
    by blast
  from fields [OF B] obtain fieldsB where gB: "getFields pass1 (createType B) = Inr fieldsB"
    by blast
  from reference_field_type [OF p1 dist A B fA distA gA] obtain fdA where
    fdA: "map_of fieldsA (fm_name fieldA) = Some fdA"
      "f_type fdA = (if fm_isRequired fieldA = Some True
                     then GraphQLNonNull (createType B) else createType B)"
    by blast
  from reference_field_type [OF p1 dist B A fB distB gB] obtain fdB where
    fdB: "map_of fieldsB (fm_name fieldB) = Some fdB"
      "f_type fdB = (if fm_isRequired fieldB = Some True
                     then GraphQLNonNull (createType A) else createType A)"
    by blast
  from gA have gA': "getFields typeSets (type tsA) = Inr fieldsA"
    by (simp add: getFields_after_pass2 [OF p2] tsA(2))
  from gB have gB': "getFields typeSets (type tsB) = Inr fieldsB"
    by (simp add: getFields_after_pass2 [OF p2] tsB(2))
  from fdA(2) tsB(2) have tA: "f_type fdA = (if fm_isRequired fieldA = Some True
                         then GraphQLNonNull (type tsB) else type tsB)" by simp
  from fdB(2) tsA(2) have tB: "f_type fdB = (if fm_isRequired fieldB = Some True
                         then GraphQLNonNull (type tsA) else type tsA)" by simp
  from b s tsA tsB gA' fdA(1) tA gB' fdB(1) tB show ?thesis by blast
qed

theorem circular_references_resolve_witness:
  "distinct (map tm_name [personMetadata, companyMetadata]) \<and>
   fm_type employerField = tm_name companyMetadata \<and>
   fm_type ownerField = tm_name personMetadata \<and>
   (\<exists>typeSets schema fieldsA fieldsB fdA fdB.
      buildTypeSets noCommonTypes [personMetadata, companyMetadata] = Inr typeSets \<and>
      createSchema noCommonTypes [personMetadata, companyMetadata] = Inr schema \<and>
      getFields typeSets (createType personMetadata) = Inr fieldsA \<and>
      map_of fieldsA ''employer'' = Some fdA \<and>
      f_type fdA = createType companyMetadata \<and>
      getFields typeSets (createType companyMetadata) = Inr fieldsB \<and>
      map_of fieldsB ''owner'' = Some fdB \<and>
      f_type fdB = GraphQLNonNull (createType personMetadata))"
proof -
  have h: "commonTypes noCommonTypes = []"
    "distinct (map tm_name [personMetadata, companyMetadata])"
    "\<forall>tm\<in>set [personMetadata, companyMetadata]. tm_name tm \<noteq> []"
    "\<forall>tm\<in>set [personMetadata, companyMetadata]. \<forall>field\<in>set (tm_fields tm). \<forall>n.
       referencedName field = Some n \<longrightarrow> n \<in> tm_name ` set [personMetadata, companyMetadata]"
    "personMetadata \<in> set [personMetadata, companyMetadata]"
    "companyMetadata \<in> set [personMetadata, companyMetadata]"
    by (simp_all add: example_defs referencedName_def PRIMITIVE_TYPE_MAP_def)
  have a: "employerField \<in> set (tm_fields personMetadata)"
    "fm_type employerField = tm_name companyMetadata"
    "fm_type employerField \<notin> fst ` set PRIMITIVE_TYPE_MAP"
    "\<not> (fm_type employerField = ''connection'' \<and> fm_target employerField \<noteq> None)"
    by (simp_all add: example_defs PRIMITIVE_TYPE_MAP_def)
  have b: "ownerField \<in> set (tm_fields companyMetadata)"
    "fm_type ownerField = tm_name personMetadata"
    "fm_type ownerField \<notin> fst ` set PRIMITIVE_TYPE_MAP"
    "\<not> (fm_type ownerField = ''connection'' \<and> fm_target ownerField \<noteq> None)"
    by (simp_all add: example_defs PRIMITIVE_TYPE_MAP_def)
  have d: "distinct (map fm_name (tm_fields personMetadata))"
    "distinct (map fm_name (tm_fields companyMetadata))"
    by (simp_all add: example_defs)
  have n: "fm_name employerField = ''employer''" "fm_name ownerField = ''owner''"
    "fm_isRequired employerField \<noteq> Some True" "fm_isRequired ownerField = Some True"
    by (simp_all add: example_defs)
  from circular_references_resolve [OF h a b d] obtain typeSets schema fieldsA fieldsB fdA fdB
    and tsA :: TypeSet and tsB :: TypeSet
    where r: "buildTypeSets noCommonTypes [personMetadata, companyMetadata] = Inr typeSets"
      "createSchema noCommonTypes [personMetadata, companyMetadata] = Inr schema"
      "type tsA = createType personMetadata" "type tsB = createType companyMetadata"
      "getFields typeSets (type tsA) = Inr fieldsA"
      "map_of fieldsA (fm_name employerField) = Some fdA"
      "f_type fdA = (if fm_isRequired employerField = Some True
                     then GraphQLNonNull (type tsB) else type tsB)"
      "getFields typeSets (type tsB) = Inr fieldsB"
      "map_of fieldsB (fm_name ownerField) = Some fdB"
      "f_type fdB = (if fm_isRequired ownerField = Some True
                     then GraphQLNonNull (type tsA) else type tsA)"
    by blast
  from r(3-10) n have
    "getFields typeSets (createType personMetadata) = Inr fieldsA \<and>
      map_of fieldsA ''employer'' = Some fdA \<and>
      f_type fdA = createType companyMetadata \<and>
      getFields typeSets (createType companyMetadata) = Inr fieldsB \<and>
      map_of fieldsB ''owner'' = Some fdB \<and>
      f_type fdB = GraphQLNonNull (createType personMetadata)"
    by simp
  with r(1,2) have "\<exists>typeSets schema fieldsA fieldsB fdA fdB.
      buildTypeSets noCommonTypes [personMetadata, companyMetadata] = Inr typeSets \<and>
      createSchema noCommonTypes [personMetadata, companyMetadata] = Inr schema \<and>
      getFields typeSets (createType personMetadata) = Inr fieldsA \<and>
      map_of fieldsA ''employer'' = Some fdA \<and>
      f_type fdA = createType companyMetadata \<and>
      getFields typeSets (createType companyMetadata) = Inr fieldsB \<and>
      map_of fieldsB ''owner'' = Some fdB \<and>
      f_type fdB = GraphQLNonNull (createType personMetadata)"
    by blast
  with h(2) a(2) b(2) show ?thesis by blast
qed

end
